theory Spec2Isabelle
  imports Main "HOL-Library.AList"
begin

section \<open>GitCentral: working-copy states and their single-character codes\<close>

text \<open>
  The enumeration \<open>EWorkingCopyState::Type\<close> of \<open>GitSourceControlState.h\<close>, in the
  order of its declaration.
\<close>

datatype EWorkingCopyState =
    Unknown
  | Unchanged
  | Added
  | Deleted
  | Modified
  | CheckedOut
  | Conflicted
  | ForcedWriteable
  | NotControlled
  | Ignored
  | Outdated
  | Missing

text \<open>
  \<open>EWorkingCopyState::ToChar\<close> (\<open>GitSourceControlState.cpp\<close>, lines 9-36): the
  \<open>switch\<close> over the state, with \<open>Outdated\<close>, \<open>Missing\<close>, \<open>Unknown\<close>, \<open>Unchanged\<close>
  sharing the \<open>default\<close> label.
\<close>

fun ToChar :: "EWorkingCopyState \<Rightarrow> char" where
  "ToChar Added = CHR ''A''"
| "ToChar Deleted = CHR ''D''"
| "ToChar Modified = CHR ''M''"
| "ToChar CheckedOut = CHR ''L''"
| "ToChar ForcedWriteable = CHR ''L''"
| "ToChar Conflicted = CHR ''U''"
| "ToChar NotControlled = CHR ''?''"
| "ToChar Ignored = CHR ''!''"
| "ToChar Outdated = CHR ''0''"
| "ToChar Missing = CHR ''0''"
| "ToChar Unknown = CHR ''0''"
| "ToChar Unchanged = CHR ''0''"

text \<open>
  \<open>EWorkingCopyState::FromChar\<close> (lines 38-61): every character without a case of
  its own, the blank and \<open>0\<close> among them, decodes to \<open>Unknown\<close>.
\<close>

definition FromChar :: "char \<Rightarrow> EWorkingCopyState" where
  "FromChar c =
     (if c = CHR ''A'' then Added
      else if c = CHR ''D'' then Deleted
      else if c = CHR ''M'' then Modified
      else if c = CHR ''L'' then CheckedOut
      else if c = CHR ''U'' then Conflicted
      else if c = CHR ''?'' then NotControlled
      else if c = CHR ''!'' then Ignored
      else Unknown)"

section \<open>File states and the ledger entry\<close>

text \<open>
  \<open>struct SavedState\<close> (\<open>GitSourceControlState.h\<close>, lines 48-60): the persisted
  projection of a file state. The default constructor gives \<open>Unknown\<close> and the
  sentinel revision \<open>0\<close>.
\<close>

record SavedState =
  State :: EWorkingCopyState
  CheckedOutRevision :: string

definition defaultState :: SavedState where
  "defaultState = \<lparr> State = Unknown, CheckedOutRevision = ''0'' \<rparr>"

text \<open>
  \<open>class FGitSourceControlState\<close> (\<open>GitSourceControlState.h\<close>, lines 183-216), its
  public data members in the order of their declaration. A revision of the history
  is kept as its identifier; \<open>FDateTime\<close> is its tick count.
\<close>

record FGitSourceControlState =
  History :: "string list"
  AbsoluteFilename :: string
  WorkingCopyState :: EWorkingCopyState
  RemoteState :: EWorkingCopyState
  TimeStamp :: int
  CheckedOutRevision :: string
  UserLocked :: string
  LockId :: int
  bLockedByOther :: bool
  bOutdated :: bool
  bStaged :: bool

text \<open>The constructor \<open>FGitSourceControlState(InLocalFilename)\<close> (lines 66-76).\<close>

definition NewState :: "string \<Rightarrow> FGitSourceControlState" where
  "NewState InLocalFilename =
     \<lparr> History = [], AbsoluteFilename = InLocalFilename, WorkingCopyState = Unknown,
       RemoteState = Unknown, TimeStamp = 0, CheckedOutRevision = ''0'', UserLocked = [],
       LockId = - 1, bLockedByOther = False, bOutdated = False, bStaged = False \<rparr>"

text \<open>The predicates of \<open>GitSourceControlState.cpp\<close>, lines 553-661.\<close>

definition IsModified :: "FGitSourceControlState \<Rightarrow> bool" where
  "IsModified st =
     (case WorkingCopyState st of
        Added \<Rightarrow> True
      | Deleted \<Rightarrow> True
      | Modified \<Rightarrow> True
      | Conflicted \<Rightarrow> True
      | NotControlled \<Rightarrow> True
      | ForcedWriteable \<Rightarrow> True
      | _ \<Rightarrow> False)"

definition IsLockedByMe :: "FGitSourceControlState \<Rightarrow> bool" where
  "IsLockedByMe st = (\<not> bLockedByOther st \<and> UserLocked st \<noteq> [])"

definition IsCheckedOut :: "FGitSourceControlState \<Rightarrow> bool" where
  "IsCheckedOut st =
     (case WorkingCopyState st of
        Added \<Rightarrow> True
      | Deleted \<Rightarrow> True
      | Modified \<Rightarrow> True
      | Conflicted \<Rightarrow> True
      | CheckedOut \<Rightarrow> True
      | ForcedWriteable \<Rightarrow> True
      | _ \<Rightarrow> IsLockedByMe st)"

definition IsCheckedOutOther :: "FGitSourceControlState \<Rightarrow> bool" where
  "IsCheckedOutOther st = (if \<not> bLockedByOther st then False else UserLocked st \<noteq> [])"

definition IsCurrent :: "FGitSourceControlState \<Rightarrow> bool" where
  "IsCurrent st = (\<not> bOutdated st)"

definition IsConflicted :: "FGitSourceControlState \<Rightarrow> bool" where
  "IsConflicted st = (WorkingCopyState st = Conflicted)"

section \<open>The four folds of the reconciler\<close>

text \<open>
  \<open>check(...)\<close> stops the program when its condition is false, and indexing an
  \<open>FString\<close> outside its characters does the same; both are errors of the model.
  \<open>GITCENTRAL_ERROR\<close> writes a line to the log and goes on: the folds return the
  lines they wrote, each holding the two states whose display names the message
  prints (this state, the other state).
\<close>

datatype error = AssertionFailed | IndexOutOfBounds

datatype diagnostic = UnhandledStateCombine EWorkingCopyState EWorkingCopyState

type_synonym combine_result = "error + (FGitSourceControlState \<times> diagnostic list)"

text \<open>"Take most recent timestamp", the opening of the local and of the remote fold.\<close>

definition TakeMostRecentTimeStamp ::
  "FGitSourceControlState \<Rightarrow> FGitSourceControlState \<Rightarrow> FGitSourceControlState" where
  "TakeMostRecentTimeStamp this Other =
     (if TimeStamp Other > TimeStamp this then this\<lparr>TimeStamp := TimeStamp Other\<rparr> else this)"

text \<open>
  The \<open>default\<close> label that closes the outer switch of the local fold (lines
  124-127): "Return current state unless unknown".
\<close>

definition CurrentUnlessUnknown ::
  "FGitSourceControlState \<Rightarrow> EWorkingCopyState \<Rightarrow> FGitSourceControlState" where
  "CurrentUnlessUnknown this OtherWorkingCopyState =
     (if WorkingCopyState this = Unknown
      then this\<lparr>WorkingCopyState := OtherWorkingCopyState\<rparr> else this)"

text \<open>
  \<open>FGitSourceControlState::CombineWithLocalState\<close> (lines 65-129). The cases
  \<open>Outdated\<close> and \<open>Missing\<close> log and, having no \<open>break\<close>, run on into the labels
  below them; \<open>CheckedOut\<close> and \<open>ForcedWriteable\<close> have no label and take \<open>default\<close>.
\<close>

definition CombineWithLocalState ::
  "FGitSourceControlState \<Rightarrow> FGitSourceControlState \<Rightarrow> combine_result" where
  "CombineWithLocalState this0 Other =
     (if AbsoluteFilename Other \<noteq> AbsoluteFilename this0 then Inl AssertionFailed
      else
        let this = TakeMostRecentTimeStamp this0 Other;
            OtherWorkingCopyState = WorkingCopyState Other;
            Unhandled = UnhandledStateCombine (WorkingCopyState this) OtherWorkingCopyState
        in Inr
          (case OtherWorkingCopyState of
             Added \<Rightarrow>
               (case WorkingCopyState this of
                  Deleted \<Rightarrow> (this\<lparr>WorkingCopyState := Modified\<rparr>, [])
                | _ \<Rightarrow> (this, [Unhandled]))
           | Deleted \<Rightarrow> (this\<lparr>WorkingCopyState := Deleted\<rparr>, [])
           | Modified \<Rightarrow>
               (case WorkingCopyState this of
                  Added \<Rightarrow> (this\<lparr>WorkingCopyState := Added\<rparr>, [])
                | Modified \<Rightarrow> (this\<lparr>WorkingCopyState := Modified\<rparr>, [])
                | _ \<Rightarrow> (this, [Unhandled]))
           | Conflicted \<Rightarrow> (this\<lparr>WorkingCopyState := Conflicted\<rparr>, [])
           | Outdated \<Rightarrow> (CurrentUnlessUnknown this OtherWorkingCopyState, [Unhandled])
           | Missing \<Rightarrow> (CurrentUnlessUnknown this OtherWorkingCopyState, [Unhandled])
           | _ \<Rightarrow> (CurrentUnlessUnknown this OtherWorkingCopyState, [])))"


text \<open>
  The assignment shared by the remote cases \<open>Deleted\<close> and \<open>Modified\<close> (lines 233-234
  and 240-241): \<open>Conflicted\<close> when the file is modified or checked out, \<open>Outdated\<close>
  otherwise, and the outdated flag set.
\<close>

definition ConflictedOrOutdated :: "FGitSourceControlState \<Rightarrow> FGitSourceControlState" where
  "ConflictedOrOutdated this =
     this\<lparr>WorkingCopyState := (if IsModified this \<or> IsCheckedOut this then Conflicted else Outdated),
          bOutdated := True\<rparr>"

text \<open>\<open>FGitSourceControlState::CombineWithRemoteState\<close> (lines 190-257).\<close>

definition CombineWithRemoteState ::
  "FGitSourceControlState \<Rightarrow> FGitSourceControlState \<Rightarrow> combine_result" where
  "CombineWithRemoteState this0 Other =
     (if AbsoluteFilename Other \<noteq> AbsoluteFilename this0 then Inl AssertionFailed
      else
        let this = (TakeMostRecentTimeStamp this0 Other)\<lparr>RemoteState := WorkingCopyState Other\<rparr>;
            Unhandled = UnhandledStateCombine (WorkingCopyState this) (WorkingCopyState Other)
        in Inr
          (case RemoteState this of
             Added \<Rightarrow>
               (case WorkingCopyState this of
                  Deleted \<Rightarrow> (this\<lparr>WorkingCopyState := Deleted, bOutdated := False\<rparr>, [])
                | Unknown \<Rightarrow> (this\<lparr>WorkingCopyState := Missing, bOutdated := True\<rparr>, [])
                | CheckedOut \<Rightarrow> (this\<lparr>WorkingCopyState := Conflicted, bOutdated := True\<rparr>, [])
                | Modified \<Rightarrow> (this\<lparr>WorkingCopyState := Conflicted, bOutdated := True\<rparr>, [])
                | Added \<Rightarrow> (this\<lparr>WorkingCopyState := Conflicted, bOutdated := True\<rparr>, [])
                | NotControlled \<Rightarrow> (this\<lparr>WorkingCopyState := Conflicted, bOutdated := True\<rparr>, [])
                | _ \<Rightarrow> (this, [Unhandled]))
           | Deleted \<Rightarrow>
               (if WorkingCopyState this = Deleted then (this\<lparr>WorkingCopyState := Unknown\<rparr>, [])
                else (ConflictedOrOutdated this, []))
           | Modified \<Rightarrow>
               (if WorkingCopyState this = Deleted then (this, [])
                else (ConflictedOrOutdated this, []))
           | Outdated \<Rightarrow> (this, [Unhandled])
           | Missing \<Rightarrow> (this, [Unhandled])
           | Conflicted \<Rightarrow> (this, [Unhandled])
           | NotControlled \<Rightarrow> (this, [Unhandled])
           | CheckedOut \<Rightarrow> (this, [Unhandled])
           | _ \<Rightarrow> (this, [])))"

text \<open>
  \<open>FGitSourceControlState::CombineWithLockedState\<close> (lines 259-298). The lock fields
  are copied first, so \<open>IsLockedByMe\<close>, \<open>IsModified\<close> and \<open>IsCheckedOut\<close> read the new
  ones. \<open>ForcedWriteable\<close> has no label in the switch and takes \<open>default\<close> with
  \<open>Missing\<close>.
\<close>

definition CombineWithLockedState ::
  "FGitSourceControlState \<Rightarrow> FGitSourceControlState \<Rightarrow> combine_result" where
  "CombineWithLockedState this0 Other =
     (if AbsoluteFilename Other \<noteq> AbsoluteFilename this0 then Inl AssertionFailed
      else
        let this = this0\<lparr>UserLocked := UserLocked Other,
                         bLockedByOther := bLockedByOther Other,
                         LockId := LockId Other\<rparr>;
            Unhandled = UnhandledStateCombine (WorkingCopyState this) (WorkingCopyState Other)
        in Inr
          (if IsLockedByMe this then
             (case WorkingCopyState this of
                Added \<Rightarrow> (this, [])
              | Deleted \<Rightarrow> (this, [])
              | Modified \<Rightarrow> (this, [])
              | Outdated \<Rightarrow> (this, [])
              | NotControlled \<Rightarrow> (this, [])
              | Conflicted \<Rightarrow> (this, [])
              | CheckedOut \<Rightarrow> (this, [])
              | Ignored \<Rightarrow> (this\<lparr>WorkingCopyState := CheckedOut\<rparr>, [])
              | Unknown \<Rightarrow> (this\<lparr>WorkingCopyState := CheckedOut\<rparr>, [])
              | Unchanged \<Rightarrow> (this\<lparr>WorkingCopyState := CheckedOut\<rparr>, [])
              | _ \<Rightarrow> (this, [Unhandled]))
           else if IsModified this \<or> IsCheckedOut this then
             (this\<lparr>WorkingCopyState := ForcedWriteable\<rparr>, [])
           else (this, [])))"

section \<open>The ledger entry as JSON\<close>

text \<open>
  The engine's JSON values, as far as the ledger reads and writes them. An object
  is its fields in order, a field set twice keeping its place; a number is kept as
  the text the engine converts it to.
\<close>

datatype FJsonValue =
    JsonNull
  | JsonString string
  | JsonNumber string
  | JsonBoolean bool
  | JsonArray "FJsonValue list"
  | JsonObject "(string \<times> FJsonValue) list"

type_synonym FJsonObject = "(string \<times> FJsonValue) list"

text \<open>
  \<open>FJsonValue::TryGetString\<close>: strings, numbers and booleans convert, nothing else
  does. \<open>FJsonObject::TryGetStringField\<close> fails as well when the field is absent,
  and then leaves its output argument as it was.
\<close>

fun TryGetString :: "FJsonValue \<Rightarrow> string option" where
  "TryGetString (JsonString s) = Some s"
| "TryGetString (JsonNumber t) = Some t"
| "TryGetString (JsonBoolean b) = Some (if b then ''true'' else ''false'')"
| "TryGetString JsonNull = None"
| "TryGetString (JsonArray vs) = None"
| "TryGetString (JsonObject fs) = None"

definition TryGetStringField :: "FJsonObject \<Rightarrow> string \<Rightarrow> string option" where
  "TryGetStringField Json FieldName =
     (case map_of Json FieldName of None \<Rightarrow> None | Some v \<Rightarrow> TryGetString v)"

definition SetField :: "FJsonObject \<Rightarrow> string \<Rightarrow> FJsonValue \<Rightarrow> FJsonObject" where
  "SetField Json FieldName v = AList.update FieldName v Json"

definition RemoveField :: "FJsonObject \<Rightarrow> string \<Rightarrow> FJsonObject" where
  "RemoveField Json FieldName = AList.delete FieldName Json"

text \<open>
  \<open>SavedState::FromJson\<close> (\<open>GitSourceControlState.cpp\<close>, lines 706-721). The argument
  is a shared pointer, \<open>None\<close> when it is not valid. The member function assigns
  \<open>State\<close> and \<open>CheckedOutRevision\<close> of the entry it is called on and returns a
  flag. \<open>StateString\<close> starts empty; \<open>StateString[0]\<close> on an empty string is outside
  its characters.
\<close>

definition FromJson :: "SavedState \<Rightarrow> FJsonObject option \<Rightarrow> error + (bool \<times> SavedState)" where
  "FromJson this Json =
     (case Json of
        None \<Rightarrow> Inr (False, this)
      | Some Obj \<Rightarrow>
          let Got = TryGetStringField Obj ''state'';
              StateString = (case Got of None \<Rightarrow> [] | Some s \<Rightarrow> s)
          in if Got = None \<and> length StateString = 1 then Inr (False, this)
             else
               (case StateString of
                  [] \<Rightarrow> Inl IndexOutOfBounds
                | c # cs \<Rightarrow>
                    let this1 = this\<lparr>State := FromChar c\<rparr>
                    in (case TryGetStringField Obj ''revision'' of
                          None \<Rightarrow> Inr (False, this1)
                        | Some r \<Rightarrow> Inr (True, this1\<lparr>SavedState.CheckedOutRevision := r\<rparr>))))"

text \<open>\<open>SavedState::ToJSon\<close> (lines 723-731) and \<open>SavedState::IsValid\<close> (header, line 52).\<close>

definition ToJSon :: "SavedState \<Rightarrow> FJsonObject" where
  "ToJSon this =
     SetField (SetField [] ''state'' (JsonString [ToChar (State this)]))
       ''revision'' (JsonString (SavedState.CheckedOutRevision this))"

definition SavedState_IsValid :: "SavedState \<Rightarrow> bool" where
  "SavedState_IsValid this =
     (ToChar (State this) \<noteq> CHR ''0'' \<or> SavedState.CheckedOutRevision this \<noteq> ''0'')"

section \<open>The status ledger\<close>

text \<open>
  \<open>class FGitSourceControlStatusFile\<close> (\<open>GitSourceControlStatusFile.h\<close>). The two
  \<open>TMap\<close>s are association lists with one entry per key; \<open>LoadedData\<close> is a shared
  pointer to the JSON document, \<open>None\<close> when it is not valid.
\<close>

record FGitSourceControlStatusFile =
  bDirty :: bool
  SavedStates :: "(string \<times> SavedState) list"
  CachedStates :: "(string \<times> SavedState) list"
  LoadedData :: "FJsonObject option"

text \<open>
  What \<open>Save\<close> takes from outside the ledger: the provider's remote and branch, the
  engine's \<open>FPaths::MakePathRelativeTo\<close>, and whether serialising the document and
  writing the file succeed.
\<close>

record SaveEnvironment =
  ProviderRemote :: string
  ProviderBranch :: string
  MakePathRelativeTo :: "string \<Rightarrow> string \<Rightarrow> string"
  SerializeSucceeds :: bool
  SaveStringToFileSucceeds :: bool

definition ClearCache :: "FGitSourceControlStatusFile \<Rightarrow> FGitSourceControlStatusFile" where
  "ClearCache this = this\<lparr>CachedStates := []\<rparr>"

definition CacheStates :: "FGitSourceControlStatusFile \<Rightarrow> FGitSourceControlStatusFile" where
  "CacheStates this = this\<lparr>CachedStates := SavedStates this\<rparr>"

definition RestoreCachedStates :: "FGitSourceControlStatusFile \<Rightarrow> FGitSourceControlStatusFile" where
  "RestoreCachedStates this = this\<lparr>SavedStates := CachedStates this\<rparr>"

text \<open>\<open>GetState\<close> (\<open>GitSourceControlStatusFile.cpp\<close>, lines 43-53).\<close>

definition GetState :: "FGitSourceControlStatusFile \<Rightarrow> string \<Rightarrow> SavedState" where
  "GetState this InFilePath =
     (case map_of (SavedStates this) InFilePath of
        Some st \<Rightarrow> st
      | None \<Rightarrow> defaultState)"

text \<open>
  \<open>Save\<close> (lines 109-168). The loop over the saved states fills \<open>JsonStatesMap\<close>,
  skipping the entries that are not valid. \<open>LoadedData.ToSharedRef()\<close> asserts that
  the pointer is valid, which it is not when there are no saved states and no
  document was loaded or allocated before.
\<close>

definition FillJsonStatesMap ::
  "SaveEnvironment \<Rightarrow> string \<Rightarrow> (string \<times> SavedState) list \<Rightarrow> FJsonObject" where
  "FillJsonStatesMap env FixedPathToRepoRoot States =
     fold (\<lambda>(Key, Value) JsonStatesMap.
             if \<not> SavedState_IsValid Value then JsonStatesMap
             else SetField JsonStatesMap (MakePathRelativeTo env Key FixedPathToRepoRoot)
                    (JsonObject (ToJSon Value)))
          States []"

definition Save ::
  "SaveEnvironment \<Rightarrow> FGitSourceControlStatusFile \<Rightarrow> string \<Rightarrow> bool
     \<Rightarrow> error + (bool \<times> FGitSourceControlStatusFile)" where
  "Save env this0 PathToRepositoryRoot bForce =
     (if \<not> bDirty this0 \<and> \<not> bForce then Inr (True, this0)
      else
        let Key = ProviderRemote env @ ''/'' @ ProviderBranch env;
            this =
              (if SavedStates this0 \<noteq> [] then
                 let FixedPathToRepoRoot =
                       (if PathToRepositoryRoot \<noteq> [] \<and> last PathToRepositoryRoot = CHR ''/''
                        then PathToRepositoryRoot else PathToRepositoryRoot @ ''/'');
                     JsonStatesMap = FillJsonStatesMap env FixedPathToRepoRoot (SavedStates this0);
                     Loaded = (case LoadedData this0 of None \<Rightarrow> [] | Some d \<Rightarrow> d)
                 in this0\<lparr>LoadedData :=
                      Some (if JsonStatesMap \<noteq> [] then SetField Loaded Key (JsonObject JsonStatesMap)
                            else RemoveField Loaded Key)\<rparr>
               else
                 (case LoadedData this0 of
                    Some d \<Rightarrow> this0\<lparr>LoadedData := Some (RemoveField d Key)\<rparr>
                  | None \<Rightarrow> this0))
        in case LoadedData this of
             None \<Rightarrow> Inl AssertionFailed
           | Some d \<Rightarrow>
               if \<not> SerializeSucceeds env then Inr (False, this)
               else if \<not> SaveStringToFileSucceeds env then Inr (False, this)
               else Inr (True, ClearCache (this\<lparr>bDirty := False\<rparr>)))"

text \<open>
  \<open>SetState\<close> (lines 55-89). In the branch of an entry that exists, \<open>OldState\<close> is
  initialised from \<open>InState\<close>, the entry is overwritten, and on a failed save
  \<open>OldState\<close> is written back. \<open>!bSave || Save(...)\<close> saves only when \<open>bSave\<close> is set.
\<close>

definition SetState ::
  "SaveEnvironment \<Rightarrow> FGitSourceControlStatusFile \<Rightarrow> string \<Rightarrow> SavedState \<Rightarrow> string \<Rightarrow> bool
     \<Rightarrow> error + (bool \<times> FGitSourceControlStatusFile)" where
  "SetState env this0 InFilePath InState PathToRepositoryRoot bSave =
     (let bWasDirty = bDirty this0;
          this = this0\<lparr>bDirty := True\<rparr>
      in case map_of (SavedStates this) InFilePath of
           Some Found \<Rightarrow>
             (let OldState = InState;
                  this1 = this\<lparr>SavedStates := AList.update InFilePath InState (SavedStates this)\<rparr>
              in if \<not> bSave then Inr (True, this1)
                 else
                   (case Save env this1 PathToRepositoryRoot False of
                      Inl e \<Rightarrow> Inl e
                    | Inr (Saved, this2) \<Rightarrow>
                        if Saved then Inr (True, this2)
                        else Inr (False,
                               this2\<lparr>SavedStates := AList.update InFilePath OldState (SavedStates this2),
                                     bDirty := bWasDirty\<rparr>)))
         | None \<Rightarrow>
             (let this1 = this\<lparr>SavedStates := AList.update InFilePath InState (SavedStates this)\<rparr>
              in if \<not> bSave then Inr (True, this1)
                 else
                   (case Save env this1 PathToRepositoryRoot False of
                      Inl e \<Rightarrow> Inl e
                    | Inr (Saved, this2) \<Rightarrow>
                        if Saved then Inr (True, this2)
                        else Inr (False,
                               this2\<lparr>SavedStates := AList.delete InFilePath (SavedStates this2),
                                     bDirty := bWasDirty\<rparr>))))"

text \<open>
  \<open>ClearState\<close> (lines 91-107). The entry is removed before the save; no branch
  puts it back.
\<close>

definition ClearState ::
  "SaveEnvironment \<Rightarrow> FGitSourceControlStatusFile \<Rightarrow> string \<Rightarrow> string \<Rightarrow> bool
     \<Rightarrow> error + (bool \<times> FGitSourceControlStatusFile)" where
  "ClearState env this0 InFilePath PathToRepositoryRoot bSave =
     (let bWasDirty = bDirty this0;
          this = this0\<lparr>bDirty := True\<rparr>;
          bFound = (map_of (SavedStates this) InFilePath \<noteq> None);
          this1 = this\<lparr>SavedStates := AList.delete InFilePath (SavedStates this)\<rparr>
      in if bFound then
           (if \<not> bSave then Inr (True, this1)
            else
              (case Save env this1 PathToRepositoryRoot False of
                 Inl e \<Rightarrow> Inl e
               | Inr (Saved, this2) \<Rightarrow>
                   if Saved then Inr (True, this2)
                   else Inr (False, this2\<lparr>bDirty := bWasDirty\<rparr>)))
         else Inr (False, this1\<lparr>bDirty := bWasDirty\<rparr>))"

section \<open>The provider's state cache\<close>

text \<open>
  \<open>FString\<close>'s \<open>operator==\<close> compares two strings without regard to the case of
  their letters: each character is lowered, \<open>A\<close> to \<open>Z\<close> becoming \<open>a\<close> to \<open>z\<close>, and the
  lowered strings are compared. The equality of states compares its strings this
  way, and so does the cache, a \<open>TMap\<close> keyed by \<open>FString\<close>, when it looks a name up.
\<close>

definition ToLower :: "char \<Rightarrow> char" where
  "ToLower c =
     (case map_of (zip ''ABCDEFGHIJKLMNOPQRSTUVWXYZ'' ''abcdefghijklmnopqrstuvwxyz'') c of
        Some l \<Rightarrow> l
      | None \<Rightarrow> c)"

definition FStringEquals :: "string \<Rightarrow> string \<Rightarrow> bool" where
  "FStringEquals A B = (map ToLower A = map ToLower B)"

text \<open>
  \<open>FGitSourceControlState::operator==\<close> (\<open>GitSourceControlState.cpp\<close>, lines 310-321)
  and \<open>operator!=\<close>, its negation.
\<close>

definition operator_eq :: "FGitSourceControlState \<Rightarrow> FGitSourceControlState \<Rightarrow> bool" where
  "operator_eq this Other =
     (WorkingCopyState this = WorkingCopyState Other
      \<and> RemoteState this = RemoteState Other
      \<and> bOutdated this = bOutdated Other
      \<and> bStaged this = bStaged Other
      \<and> FStringEquals (CheckedOutRevision this) (CheckedOutRevision Other)
      \<and> FStringEquals (AbsoluteFilename this) (AbsoluteFilename Other)
      \<and> FStringEquals (UserLocked this) (UserLocked Other)
      \<and> bLockedByOther this = bLockedByOther Other)"

definition operator_neq :: "FGitSourceControlState \<Rightarrow> FGitSourceControlState \<Rightarrow> bool" where
  "operator_neq this Other = (\<not> operator_eq this Other)"

text \<open>
  The cache \<open>StateCache\<close> of the provider, a \<open>TMap\<close> from absolute file names to
  shared state objects: its entries in the order they were added, no two keys equal
  as \<open>FString\<close>s. \<open>CacheFind\<close> is \<open>TMap::Find\<close>. \<open>CacheAssign\<close> is the assignment
  \<open>*State = ...\<close> through the reference to the state found under a name: the
  object under that key takes the new value, the key stays as it was added.
\<close>

type_synonym StateCache = "(string \<times> FGitSourceControlState) list"

fun CacheFind :: "StateCache \<Rightarrow> string \<Rightarrow> FGitSourceControlState option" where
  "CacheFind [] Filename = None"
| "CacheFind ((Key, Value) # Cache) Filename =
     (if FStringEquals Key Filename then Some Value else CacheFind Cache Filename)"

fun CacheAssign :: "StateCache \<Rightarrow> string \<Rightarrow> FGitSourceControlState \<Rightarrow> StateCache" where
  "CacheAssign [] Filename NewValue = []"
| "CacheAssign ((Key, Value) # Cache) Filename NewValue =
     (if FStringEquals Key Filename then (Key, NewValue) # Cache
      else (Key, Value) # CacheAssign Cache Filename NewValue)"

text \<open>
  \<open>FGitSourceControlProvider::GetStateInternal\<close> (\<open>GitSourceControlProvider.cpp\<close>,
  lines 149-164), which caches an unknown state for a file it does not find.
\<close>

definition GetStateInternal :: "StateCache \<Rightarrow> string \<Rightarrow> FGitSourceControlState \<times> StateCache" where
  "GetStateInternal Cache Filename =
     (case CacheFind Cache Filename of
        Some Found \<Rightarrow> (Found, Cache)
      | None \<Rightarrow> (NewState Filename, Cache @ [(Filename, NewState Filename)]))"

text \<open>The state the provider holds for a file, as \<open>GetStateInternal\<close> answers it.\<close>

definition CachedState :: "StateCache \<Rightarrow> string \<Rightarrow> FGitSourceControlState" where
  "CachedState Cache Filename = fst (GetStateInternal Cache Filename)"

text \<open>
  \<open>GitSourceControlUtils::UpdateCachedStates\<close> (\<open>GitSourceControlUtils.cpp\<close>, lines
  1706-1726). The loop carries the cache and \<open>NbStatesUpdated\<close>; the array has fewer
  than \<open>2^31\<close> elements, so the 32-bit counter does not wrap. \<open>Now k\<close> is what
  \<open>FDateTime::Now()\<close> returns at its call number \<open>k\<close>, counted from zero.
\<close>

fun UpdateCachedStates_loop ::
  "(nat \<Rightarrow> int) \<Rightarrow> FGitSourceControlState list \<Rightarrow> StateCache \<Rightarrow> nat \<Rightarrow> StateCache \<times> nat" where
  "UpdateCachedStates_loop Now [] Cache NbStatesUpdated = (Cache, NbStatesUpdated)"
| "UpdateCachedStates_loop Now (InState # InStates) Cache NbStatesUpdated =
     (case GetStateInternal Cache (AbsoluteFilename InState) of
        (Found, Cache1) \<Rightarrow>
          if operator_neq Found InState then
            UpdateCachedStates_loop Now InStates
              (CacheAssign Cache1 (AbsoluteFilename InState)
                 (InState\<lparr>TimeStamp := Now NbStatesUpdated, History := History Found\<rparr>))
              (Suc NbStatesUpdated)
          else UpdateCachedStates_loop Now InStates Cache1 NbStatesUpdated)"

definition UpdateCachedStates ::
  "(nat \<Rightarrow> int) \<Rightarrow> FGitSourceControlState list \<Rightarrow> StateCache \<Rightarrow> bool \<times> StateCache" where
  "UpdateCachedStates Now InStates Cache =
     (case UpdateCachedStates_loop Now InStates Cache 0 of
        (Cache', NbStatesUpdated) \<Rightarrow> (NbStatesUpdated > 0, Cache'))"

text \<open>
  Two states that agree in every field, their file names up to the case of
  letters: what a state cached under a name and the placeholder for the same name
  written in another case have in common.
\<close>

definition SameButFilenameCase :: "FGitSourceControlState \<Rightarrow> FGitSourceControlState \<Rightarrow> bool" where
  "SameButFilenameCase a b =
     (FStringEquals (AbsoluteFilename a) (AbsoluteFilename b)
      \<and> History a = History b
      \<and> WorkingCopyState a = WorkingCopyState b
      \<and> RemoteState a = RemoteState b
      \<and> TimeStamp a = TimeStamp b
      \<and> CheckedOutRevision a = CheckedOutRevision b
      \<and> UserLocked a = UserLocked b
      \<and> LockId a = LockId b
      \<and> bLockedByOther a = bLockedByOther b
      \<and> bOutdated a = bOutdated b
      \<and> bStaged a = bStaged b)"

section \<open>Commands and the provider's tick\<close>

text \<open>
  \<open>class FGitSourceControlCommand\<close>, the fields its constructor and \<open>DoWork\<close> set
  (\<open>GitSourceControlCommand.cpp\<close>) and the provider and the workers read. A command
  sits in the queue by its address, here \<open>CommandAddress\<close>. Of the worker, a virtual
  interface, the tick sees what \<open>UpdateStates()\<close> and \<open>IsConnected()\<close> return; of the
  completion delegate, whether it is bound.
\<close>

record FGitSourceControlCommand =
  CommandAddress :: nat
  Files :: "string list"
  PathToGitBinary :: string
  PathToRepositoryRoot :: string
  Branch :: string
  Remote :: string
  bUseLocking :: bool
  bExecuteProcessed :: bool
  bCommandSuccessful :: bool
  bAutoDelete :: bool
  InfoMessages :: "string list"
  ErrorMessages :: "string list"
  WorkerUpdateStates :: bool
  WorkerIsConnected :: bool
  DelegateIsBound :: bool

text \<open>
  The members of \<open>FGitSourceControlProvider\<close> that \<open>Tick\<close> and \<open>IssueCommand\<close> touch.
\<close>

record FGitSourceControlProvider =
  CommandQueue :: "FGitSourceControlCommand list"
  bConnected :: bool
  bForceBroadcastUpdateNextTick :: bool

text \<open>
  What a tick does to the world outside the provider's members, in order: the call
  of a worker's \<open>UpdateStates\<close>, the dump of a command's messages, the call of its
  completion delegate with the result (true for \<open>Succeeded\<close>), the deletion of the
  command, the broadcast of the state-changed event. Each names the command by its
  address.
\<close>

datatype TickEvent =
    UpdateStatesCalled nat
  | MessagesOutput nat
  | DelegateExecuted nat bool
  | CommandDeleted nat
  | StateChangedBroadcast

text \<open>
  The body of the loop of \<open>Tick\<close> for a command whose execution was processed
  (\<open>GitSourceControlProvider.cpp\<close>, lines 360-388). \<open>Scanned\<close> are the commands before
  it in the queue and \<open>Rest\<close> those after it, so \<open>RemoveAt\<close> leaves \<open>Scanned @ Rest\<close>.
  The completion delegate is code outside the provider, called in the middle of the
  tick with the provider as the removal left it. It may do to the provider whatever
  the provider's interface allows: issue commands, or run an operation
  synchronously, which calls \<open>Tick\<close> again from inside this call (\<open>Execute\<close>, lines
  285-288, and \<open>ExecuteSynchronousCommand\<close>, lines 426-469). \<open>Delegate a r p\<close> is the
  provider the delegate of the command at address \<open>a\<close> leaves when called with the
  result \<open>r\<close> on the provider \<open>p\<close>, with the events of the ticks it ran.
\<close>

definition Tick_process ::
  "(nat \<Rightarrow> bool \<Rightarrow> FGitSourceControlProvider \<Rightarrow> FGitSourceControlProvider \<times> TickEvent list)
     \<Rightarrow> FGitSourceControlProvider
     \<Rightarrow> FGitSourceControlCommand list \<Rightarrow> FGitSourceControlCommand \<Rightarrow> FGitSourceControlCommand list
     \<Rightarrow> FGitSourceControlProvider \<times> bool \<times> TickEvent list" where
  "Tick_process Delegate this Scanned Command Rest =
     (let this1 = this\<lparr>CommandQueue := Scanned @ Rest\<rparr>;
          bStatesUpdated = WorkerUpdateStates Command;
          this2 = (if WorkerIsConnected Command then this1\<lparr>bConnected := True\<rparr> else this1);
          Result = bCommandSuccessful Command;
          Called = (if DelegateIsBound Command
                    then (case Delegate (CommandAddress Command) Result this2 of
                            (this3, DelegateEvents) \<Rightarrow>
                              (this3, DelegateExecuted (CommandAddress Command) Result # DelegateEvents))
                    else (this2, []))
      in (fst Called, bStatesUpdated,
          [UpdateStatesCalled (CommandAddress Command), MessagesOutput (CommandAddress Command)]
          @ snd Called
          @ (if bAutoDelete Command then [CommandDeleted (CommandAddress Command)] else [])))"

text \<open>
  The loop of \<open>Tick\<close> (lines 355-390) over the queue from index 0: a command that is
  not processed is stepped over; the first processed one is handled and the loop
  left by \<open>break\<close>. The flags are those the loop reads.
\<close>

fun Tick_loop ::
  "(nat \<Rightarrow> bool \<Rightarrow> FGitSourceControlProvider \<Rightarrow> FGitSourceControlProvider \<times> TickEvent list)
     \<Rightarrow> FGitSourceControlProvider
     \<Rightarrow> FGitSourceControlCommand list \<Rightarrow> FGitSourceControlCommand list
     \<Rightarrow> FGitSourceControlProvider \<times> bool \<times> TickEvent list" where
  "Tick_loop Delegate this Scanned [] = (this, False, [])"
| "Tick_loop Delegate this Scanned (Command # Rest) =
     (if bExecuteProcessed Command then Tick_process Delegate this Scanned Command Rest
      else Tick_loop Delegate this (Scanned @ [Command]) Rest)"

text \<open>\<open>FGitSourceControlProvider::Tick\<close> (lines 352-397).\<close>

definition Tick ::
  "(nat \<Rightarrow> bool \<Rightarrow> FGitSourceControlProvider \<Rightarrow> FGitSourceControlProvider \<times> TickEvent list)
     \<Rightarrow> FGitSourceControlProvider
     \<Rightarrow> FGitSourceControlProvider \<times> TickEvent list" where
  "Tick Delegate this =
     (case Tick_loop Delegate this [] (CommandQueue this) of
        (this1, bStatesUpdated, Events) \<Rightarrow>
          if bStatesUpdated \<or> bForceBroadcastUpdateNextTick this1
          then (this1\<lparr>bForceBroadcastUpdateNextTick := False\<rparr>, Events @ [StateChangedBroadcast])
          else (this1, Events))"

text \<open>
  \<open>IssueCommand\<close> (lines 471-484), with the thread pool at hand: the command goes to
  the end of the queue.
\<close>

definition IssueCommand ::
  "FGitSourceControlProvider \<Rightarrow> FGitSourceControlCommand \<Rightarrow> FGitSourceControlProvider" where
  "IssueCommand this InCommand = this\<lparr>CommandQueue := CommandQueue this @ [InCommand]\<rparr>"

text \<open>
  The addresses of the commands whose \<open>UpdateStates\<close> a tick called, and the
  delegates it executed.
\<close>

fun UpdateStatesCalls :: "TickEvent list \<Rightarrow> nat list" where
  "UpdateStatesCalls [] = []"
| "UpdateStatesCalls (UpdateStatesCalled a # es) = a # UpdateStatesCalls es"
| "UpdateStatesCalls (e # es) = UpdateStatesCalls es"

fun DelegateCalls :: "TickEvent list \<Rightarrow> (nat \<times> bool) list" where
  "DelegateCalls [] = []"
| "DelegateCalls (DelegateExecuted a r # es) = (a, r) # DelegateCalls es"
| "DelegateCalls (e # es) = DelegateCalls es"

section \<open>The start of get-latest\<close>

text \<open>\<open>enum GitIndexState\<close> (\<open>GitSourceControlUtils.h\<close>, lines 31-36).\<close>

datatype GitIndexState = Invalid | Valid | MustResolveConflicts

text \<open>
  What a sync touches: the command, the status ledger, and the repository through
  the git binary. \<open>Issued\<close> lists the git invocations made so far, each with its
  parameters.
\<close>

record SyncState =
  Command :: FGitSourceControlCommand
  StatusFile :: FGitSourceControlStatusFile
  Issued :: "(string \<times> string list) list"

text \<open>
  What the start of \<open>GetLatest\<close> takes from outside the sources given: the answer of
  the git binary to a query (its success, its output lines, its error lines; the
  queries made here, \<open>status --porcelain\<close>, \<open>rev-parse --verify\<close> and \<open>merge-base\<close>,
  read the repository and leave it as it is), the parser \<open>ParseStatusResults\<close>
  with the states it builds in the order the loop visits them, the accessor
  \<open>GetRemoteBranch\<close> declared in the header of the command, which names the
  remote branch from the command's remote and branch, and the steps of
  \<open>GetLatest\<close> after the comparison of the merge base with the remote head (lines
  962-1148: stash, diff, rebase, ledger update, status refresh), called with the
  merge base, the remote head and the remote branch.
\<close>

record SyncEnvironment =
  GitQuery :: "string \<Rightarrow> string list \<Rightarrow> bool \<times> string list \<times> string list"
  ParseStatusResults :: "string list \<Rightarrow> FGitSourceControlState list"
  GetRemoteBranch :: "string \<Rightarrow> string \<Rightarrow> string"
  SyncAndRebase :: "string \<Rightarrow> string \<Rightarrow> string \<Rightarrow> SyncState \<Rightarrow> bool \<times> SyncState"

text \<open>
  The scan of \<open>RunCheckIndexValid\<close> over the parsed states
  (\<open>GitSourceControlUtils.cpp\<close>, lines 1784-1795).
\<close>

fun CheckIndexStates :: "FGitSourceControlState list \<Rightarrow> GitIndexState" where
  "CheckIndexStates [] = Valid"
| "CheckIndexStates (Value # States) =
     (if IsConflicted Value then MustResolveConflicts
      else if bStaged Value then Invalid
      else CheckIndexStates States)"

text \<open>
  \<open>RunCheckIndexValid\<close> (lines 1773-1801): the error lines of the status query go
  to the command's error messages.
\<close>

definition RunCheckIndexValid :: "SyncEnvironment \<Rightarrow> SyncState \<Rightarrow> GitIndexState \<times> SyncState" where
  "RunCheckIndexValid env s =
     (case GitQuery env ''status --porcelain'' [] of
        (bResult, Results, Errors) \<Rightarrow>
          let s1 = s\<lparr>Command := (Command s)\<lparr>ErrorMessages := ErrorMessages (Command s) @ Errors\<rparr>,
                      Issued := Issued s @ [(''status --porcelain'', [])]\<rparr>
          in if bResult then (CheckIndexStates (ParseStatusResults env Results), s1)
             else (Invalid, s1))"

text \<open>\<open>GetCommitShaForBranch\<close> (lines 832-843) and \<open>GetMergeBase\<close> (lines 845-861).\<close>

definition GetCommitShaForBranch :: "SyncEnvironment \<Rightarrow> string \<Rightarrow> SyncState \<Rightarrow> string \<times> SyncState" where
  "GetCommitShaForBranch env InBranch s =
     (case GitQuery env ''rev-parse --verify'' [InBranch] of
        (bResult, StdOut, StdErr) \<Rightarrow>
          (if bResult \<and> length StdOut = 1 then StdOut ! 0 else [],
           s\<lparr>Issued := Issued s @ [(''rev-parse --verify'', [InBranch])]\<rparr>))"

definition GetMergeBase ::
  "SyncEnvironment \<Rightarrow> string \<Rightarrow> string \<Rightarrow> SyncState \<Rightarrow> string \<times> SyncState" where
  "GetMergeBase env InCommit1 InCommit2 s =
     (case GitQuery env ''merge-base'' [InCommit1, InCommit2] of
        (bResult, StdOut, StdErr) \<Rightarrow>
          (if \<not> bResult \<or> length StdOut = 0 then [] else StdOut ! 0,
           s\<lparr>Issued := Issued s @ [(''merge-base'', [InCommit1, InCommit2])]\<rparr>))"

text \<open>
  \<open>FGitSyncWorker::GetLatest\<close> (\<open>GitSourceControlOperations.cpp\<close>, lines 932-960, and
  the environment's \<open>SyncAndRebase\<close> for what follows them).
\<close>

definition GetLatest :: "SyncEnvironment \<Rightarrow> SyncState \<Rightarrow> bool \<times> SyncState" where
  "GetLatest env s0 =
     (case RunCheckIndexValid env s0 of
        (IndexValid, s1) \<Rightarrow>
          if IndexValid \<noteq> Valid
          then (False, s1\<lparr>Command := (Command s1)\<lparr>bCommandSuccessful := False\<rparr>\<rparr>)
          else
            let RemoteBranch = GetRemoteBranch env (Remote (Command s1)) (Branch (Command s1))
            in (case GetCommitShaForBranch env RemoteBranch s1 of
                  (RemoteSha, s2) \<Rightarrow>
                    if RemoteSha = []
                    then (False, s2\<lparr>Command := (Command s2)\<lparr>bCommandSuccessful := False\<rparr>\<rparr>)
                    else
                      (case GetMergeBase env (Branch (Command s2)) RemoteBranch s2 of
                         (MergeBase, s3) \<Rightarrow>
                           if MergeBase = []
                           then (False,
                                 s3\<lparr>Command := (Command s3)\<lparr>ErrorMessages :=
                                      ErrorMessages (Command s3)
                                      @ [''Could not find merge-base for '' @ Branch (Command s3)
                                         @ '' and '' @ RemoteBranch]\<rparr>\<rparr>)
                           else if MergeBase = RemoteSha then (True, s3)
                           else SyncAndRebase env MergeBase RemoteSha RemoteBranch s3)))"

section \<open>The state codes (C9)\<close>

text \<open>
  Claim C9. \<open>ToChar\<close> sends Added, Deleted, Modified to \<open>A\<close>, \<open>D\<close>, \<open>M\<close>, both
  CheckedOut and ForcedWriteable to \<open>L\<close>, Conflicted to \<open>U\<close>, NotControlled to \<open>?\<close>,
  Ignored to \<open>!\<close>, and Unknown, Unchanged, Outdated, Missing to \<open>0\<close>. Decoding an
  encoded state gives the state back for the seven states with a code of their own;
  ForcedWriteable comes back as CheckedOut and the four collapsed states as Unknown.
\<close>

theorem ToChar_FromChar_codes:
  "ToChar Added = CHR ''A'' \<and> ToChar Deleted = CHR ''D'' \<and> ToChar Modified = CHR ''M''
   \<and> ToChar CheckedOut = CHR ''L'' \<and> ToChar ForcedWriteable = CHR ''L''
   \<and> ToChar Conflicted = CHR ''U'' \<and> ToChar NotControlled = CHR ''?''
   \<and> ToChar Ignored = CHR ''!''
   \<and> ToChar Unknown = CHR ''0'' \<and> ToChar Unchanged = CHR ''0''
   \<and> ToChar Outdated = CHR ''0'' \<and> ToChar Missing = CHR ''0''
   \<and> FromChar (ToChar s) =
       (case s of
          ForcedWriteable \<Rightarrow> CheckedOut
        | Unchanged \<Rightarrow> Unknown
        | Outdated \<Rightarrow> Unknown
        | Missing \<Rightarrow> Unknown
        | _ \<Rightarrow> s)"
  by (cases s) (simp_all add: FromChar_def)

section \<open>The remote fold (C2)\<close>

text \<open>
  Claim C2, as amended. In \<open>CombineWithRemoteState\<close>, called as the code asserts
  with the two states of one file: a remote state Modified or Deleted met by a
  local state Modified, CheckedOut or Added gives Conflicted with the outdated flag
  set; a remote Added met by a local Deleted is no conflict, the state stays Deleted
  (and the file is not outdated, nothing is logged); a remote Modified or Deleted
  met by a file with no local activity (neither modified nor checked out, as the
  code's own predicates judge it) gives Outdated with the flag set; a remote Added
  met by a file unknown locally gives Missing with the flag set. A remote Added met
  by a local Unchanged, Ignored, Outdated, Missing, Conflicted or ForcedWriteable
  is a combination the code does not handle: the state and the outdated flag stay
  as they were and one diagnostic is logged.
\<close>

theorem CombineWithRemoteState_rules:
  assumes "AbsoluteFilename Other = AbsoluteFilename this"
  shows "\<exists>st ds. CombineWithRemoteState this Other = Inr (st, ds)
    \<and> ((WorkingCopyState Other = Modified \<or> WorkingCopyState Other = Deleted)
        \<and> (WorkingCopyState this = Modified \<or> WorkingCopyState this = CheckedOut
            \<or> WorkingCopyState this = Added)
        \<longrightarrow> WorkingCopyState st = Conflicted \<and> bOutdated st)
    \<and> (WorkingCopyState Other = Added \<and> WorkingCopyState this = Deleted
        \<longrightarrow> WorkingCopyState st = Deleted \<and> \<not> bOutdated st \<and> ds = [])
    \<and> ((WorkingCopyState Other = Modified \<or> WorkingCopyState Other = Deleted)
        \<and> \<not> IsModified this \<and> \<not> IsCheckedOut this
        \<longrightarrow> WorkingCopyState st = Outdated \<and> bOutdated st)
    \<and> (WorkingCopyState Other = Added \<and> WorkingCopyState this = Unknown
        \<longrightarrow> WorkingCopyState st = Missing \<and> bOutdated st)
    \<and> (WorkingCopyState Other = Added
        \<and> WorkingCopyState this \<in> {Unchanged, Ignored, Outdated, Missing, Conflicted, ForcedWriteable}
        \<longrightarrow> WorkingCopyState st = WorkingCopyState this \<and> bOutdated st = bOutdated this
            \<and> ds = [UnhandledStateCombine (WorkingCopyState this) Added])"
  using assms
  by (cases "WorkingCopyState Other"; cases "WorkingCopyState this";
      simp add: CombineWithRemoteState_def ConflictedOrOutdated_def TakeMostRecentTimeStamp_def
        IsModified_def IsCheckedOut_def IsLockedByMe_def Let_def)

theorem CombineWithRemoteState_rules_witness:
  "(\<exists>st ds. CombineWithRemoteState ((NewState ''/repo/C'')\<lparr>WorkingCopyState := Modified\<rparr>)
        ((NewState ''/repo/C'')\<lparr>WorkingCopyState := Modified\<rparr>) = Inr (st, ds)
      \<and> WorkingCopyState st = Conflicted \<and> bOutdated st)
   \<and> (\<exists>st ds. CombineWithRemoteState ((NewState ''/repo/C'')\<lparr>WorkingCopyState := Deleted\<rparr>)
        ((NewState ''/repo/C'')\<lparr>WorkingCopyState := Added\<rparr>) = Inr (st, ds)
      \<and> WorkingCopyState st = Deleted \<and> \<not> bOutdated st \<and> ds = [])
   \<and> (\<exists>st ds. CombineWithRemoteState ((NewState ''/repo/C'')\<lparr>WorkingCopyState := Unchanged\<rparr>)
        ((NewState ''/repo/C'')\<lparr>WorkingCopyState := Deleted\<rparr>) = Inr (st, ds)
      \<and> WorkingCopyState st = Outdated \<and> bOutdated st)
   \<and> (\<exists>st ds. CombineWithRemoteState (NewState ''/repo/C'')
        ((NewState ''/repo/C'')\<lparr>WorkingCopyState := Added\<rparr>) = Inr (st, ds)
      \<and> WorkingCopyState st = Missing \<and> bOutdated st)"
  using
    CombineWithRemoteState_rules [of "(NewState ''/repo/C'')\<lparr>WorkingCopyState := Modified\<rparr>"
      "(NewState ''/repo/C'')\<lparr>WorkingCopyState := Modified\<rparr>"]
    CombineWithRemoteState_rules [of "(NewState ''/repo/C'')\<lparr>WorkingCopyState := Added\<rparr>"
      "(NewState ''/repo/C'')\<lparr>WorkingCopyState := Deleted\<rparr>"]
    CombineWithRemoteState_rules [of "(NewState ''/repo/C'')\<lparr>WorkingCopyState := Deleted\<rparr>"
      "(NewState ''/repo/C'')\<lparr>WorkingCopyState := Unchanged\<rparr>"]
    CombineWithRemoteState_rules [of "(NewState ''/repo/C'')\<lparr>WorkingCopyState := Added\<rparr>"
      "NewState ''/repo/C''"]
  by (simp add: NewState_def IsModified_def IsCheckedOut_def IsLockedByMe_def)

text \<open>
  The claim as first stated has every remote-only change with no local activity
  end in Outdated, or in Missing for a file added on the remote. A file that is
  Unchanged locally, neither modified nor checked out, and Added on the remote
  stays Unchanged and not outdated; only a diagnostic is logged.
\<close>

theorem CombineWithRemoteState_added_on_unchanged_counterexample:
  "\<not> IsModified ((NewState ''/repo/C'')\<lparr>WorkingCopyState := Unchanged\<rparr>)
   \<and> \<not> IsCheckedOut ((NewState ''/repo/C'')\<lparr>WorkingCopyState := Unchanged\<rparr>)
   \<and> CombineWithRemoteState ((NewState ''/repo/C'')\<lparr>WorkingCopyState := Unchanged\<rparr>)
        ((NewState ''/repo/C'')\<lparr>WorkingCopyState := Added\<rparr>)
      = Inr ((NewState ''/repo/C'')\<lparr>WorkingCopyState := Unchanged, RemoteState := Added\<rparr>,
             [UnhandledStateCombine Unchanged Added])
   \<and> WorkingCopyState ((NewState ''/repo/C'')\<lparr>WorkingCopyState := Unchanged, RemoteState := Added\<rparr>)
       \<noteq> Outdated
   \<and> WorkingCopyState ((NewState ''/repo/C'')\<lparr>WorkingCopyState := Unchanged, RemoteState := Added\<rparr>)
       \<noteq> Missing
   \<and> \<not> bOutdated ((NewState ''/repo/C'')\<lparr>WorkingCopyState := Unchanged, RemoteState := Added\<rparr>)"
  by (simp add: CombineWithRemoteState_def TakeMostRecentTimeStamp_def NewState_def
        IsModified_def IsCheckedOut_def IsLockedByMe_def Let_def)

section \<open>The ledger fold (C3)\<close>



section \<open>The local fold (C5)\<close>

text \<open>
  Claim C5, as amended. \<open>CombineWithLocalState\<close>, called as the code asserts with
  the two states of one file, never fails and computes this table (new state of
  \<open>Other\<close>, old state of \<open>this\<close>): Added on Deleted gives Modified; Deleted gives
  Deleted; Modified on Added gives Added and on Modified gives Modified; Conflicted
  gives Conflicted; for every remaining new state, that is NotControlled, Ignored,
  Unknown, Unchanged and also CheckedOut, ForcedWriteable, Outdated and Missing,
  the old state is kept unless it is Unknown, when the new state is taken. Every
  other combination (Added on an old state other than Deleted, Modified on an old
  state other than Added and Modified) leaves the old state as it is. A diagnostic,
  and exactly one, is logged for these other combinations and whenever the new
  state is Outdated or Missing.
\<close>

theorem CombineWithLocalState_precedence:
  assumes "AbsoluteFilename Other = AbsoluteFilename this"
  shows "\<exists>st ds. CombineWithLocalState this Other = Inr (st, ds)
    \<and> WorkingCopyState st =
        (case WorkingCopyState Other of
           Added \<Rightarrow> (if WorkingCopyState this = Deleted then Modified else WorkingCopyState this)
         | Deleted \<Rightarrow> Deleted
         | Modified \<Rightarrow> WorkingCopyState this
         | Conflicted \<Rightarrow> Conflicted
         | _ \<Rightarrow> (if WorkingCopyState this = Unknown then WorkingCopyState Other
                 else WorkingCopyState this))
    \<and> ds =
        (if (WorkingCopyState Other = Added \<and> WorkingCopyState this \<noteq> Deleted)
            \<or> (WorkingCopyState Other = Modified \<and> WorkingCopyState this \<noteq> Added
                \<and> WorkingCopyState this \<noteq> Modified)
            \<or> WorkingCopyState Other = Outdated \<or> WorkingCopyState Other = Missing
         then [UnhandledStateCombine (WorkingCopyState this) (WorkingCopyState Other)]
         else [])"
  using assms
  by (cases "WorkingCopyState Other"; cases "WorkingCopyState this";
      simp add: CombineWithLocalState_def CurrentUnlessUnknown_def TakeMostRecentTimeStamp_def
        Let_def)

text \<open>
  The table at Added on Deleted, at Modified on an old Unchanged (kept, one
  diagnostic) and at Unchanged on an old Unknown.
\<close>

theorem CombineWithLocalState_precedence_witness:
  "(\<exists>st ds. CombineWithLocalState ((NewState ''/repo/a.uasset'')\<lparr>WorkingCopyState := Deleted\<rparr>)
        ((NewState ''/repo/a.uasset'')\<lparr>WorkingCopyState := Added\<rparr>) = Inr (st, ds)
      \<and> WorkingCopyState st = Modified \<and> ds = [])
   \<and> (\<exists>st ds. CombineWithLocalState ((NewState ''/repo/a.uasset'')\<lparr>WorkingCopyState := Unchanged\<rparr>)
        ((NewState ''/repo/a.uasset'')\<lparr>WorkingCopyState := Modified\<rparr>) = Inr (st, ds)
      \<and> WorkingCopyState st = Unchanged \<and> ds = [UnhandledStateCombine Unchanged Modified])
   \<and> (\<exists>st ds. CombineWithLocalState (NewState ''/repo/a.uasset'')
        ((NewState ''/repo/a.uasset'')\<lparr>WorkingCopyState := Unchanged\<rparr>) = Inr (st, ds)
      \<and> WorkingCopyState st = Unchanged \<and> ds = [])"
  using
    CombineWithLocalState_precedence [of "(NewState ''/repo/a.uasset'')\<lparr>WorkingCopyState := Added\<rparr>"
      "(NewState ''/repo/a.uasset'')\<lparr>WorkingCopyState := Deleted\<rparr>"]
    CombineWithLocalState_precedence [of "(NewState ''/repo/a.uasset'')\<lparr>WorkingCopyState := Modified\<rparr>"
      "(NewState ''/repo/a.uasset'')\<lparr>WorkingCopyState := Unchanged\<rparr>"]
    CombineWithLocalState_precedence [of "(NewState ''/repo/a.uasset'')\<lparr>WorkingCopyState := Unchanged\<rparr>"
      "NewState ''/repo/a.uasset''"]
  by (simp add: NewState_def)

text \<open>
  The claim as first stated lets only NotControlled, Ignored, Unknown and Unchanged
  replace an old Unknown, and has every other combination keep the old state and log
  a diagnostic. A new CheckedOut on an old Unknown becomes CheckedOut and logs
  nothing; a new Outdated on an old Unknown logs and becomes Outdated.
\<close>

theorem CombineWithLocalState_other_combination_counterexample:
  "CombineWithLocalState (NewState ''/repo/a.uasset'')
      ((NewState ''/repo/a.uasset'')\<lparr>WorkingCopyState := CheckedOut\<rparr>)
     = Inr ((NewState ''/repo/a.uasset'')\<lparr>WorkingCopyState := CheckedOut\<rparr>, [])
   \<and> WorkingCopyState (NewState ''/repo/a.uasset'') = Unknown
   \<and> CombineWithLocalState (NewState ''/repo/a.uasset'')
      ((NewState ''/repo/a.uasset'')\<lparr>WorkingCopyState := Outdated\<rparr>)
     = Inr ((NewState ''/repo/a.uasset'')\<lparr>WorkingCopyState := Outdated\<rparr>,
            [UnhandledStateCombine Unknown Outdated])"
  by (simp add: CombineWithLocalState_def CurrentUnlessUnknown_def TakeMostRecentTimeStamp_def
        NewState_def Let_def)

section \<open>The lock fold (C6)\<close>

text \<open>
  Claim C6. In \<open>CombineWithLockedState\<close>, called as the code asserts with the two
  states of one file: when the lock is held by the local identity, Unknown and
  Unchanged become CheckedOut, and Added, Deleted, Modified, Outdated, Conflicted,
  NotControlled and CheckedOut pass through; when the lock is held by another
  identity, the state becomes ForcedWriteable exactly when the file is modified or
  checked out (the code's predicates, read once the lock fields are copied, that
  is: the state is one of Added, Deleted, Modified, Conflicted, NotControlled,
  ForcedWriteable, CheckedOut), otherwise the working-copy state is left as it was,
  and in both cases the result reports the foreign lock through
  \<open>IsCheckedOutOther\<close>.
\<close>

theorem CombineWithLockedState_rules:
  assumes "AbsoluteFilename Other = AbsoluteFilename this"
  shows "\<exists>st ds. CombineWithLockedState this Other = Inr (st, ds)
    \<and> (IsLockedByMe Other \<longrightarrow>
         (WorkingCopyState this = Unknown \<or> WorkingCopyState this = Unchanged
            \<longrightarrow> WorkingCopyState st = CheckedOut)
       \<and> (WorkingCopyState this \<in> {Added, Deleted, Modified, Outdated, Conflicted,
              NotControlled, CheckedOut}
            \<longrightarrow> WorkingCopyState st = WorkingCopyState this))
    \<and> (bLockedByOther Other \<and> UserLocked Other \<noteq> [] \<longrightarrow>
         (WorkingCopyState st = ForcedWriteable)
           = (IsModified this \<or> IsCheckedOut (this\<lparr>UserLocked := UserLocked Other,
                bLockedByOther := bLockedByOther Other, LockId := LockId Other\<rparr>))
       \<and> (WorkingCopyState st = ForcedWriteable)
           = (WorkingCopyState this \<in> {Added, Deleted, Modified, Conflicted, NotControlled,
                ForcedWriteable, CheckedOut})
       \<and> (WorkingCopyState st \<noteq> ForcedWriteable
            \<longrightarrow> WorkingCopyState st = WorkingCopyState this)
       \<and> IsCheckedOutOther st)"
  using assms
  by (cases "WorkingCopyState this";
      simp add: CombineWithLockedState_def IsLockedByMe_def IsModified_def IsCheckedOut_def
        IsCheckedOutOther_def Let_def)

theorem CombineWithLockedState_rules_witness:
  "(\<exists>st ds. CombineWithLockedState ((NewState ''/repo/D'')\<lparr>WorkingCopyState := Unchanged\<rparr>)
        ((NewState ''/repo/D'')\<lparr>UserLocked := ''x''\<rparr>) = Inr (st, ds)
      \<and> WorkingCopyState st = CheckedOut)
   \<and> (\<exists>st ds. CombineWithLockedState ((NewState ''/repo/D'')\<lparr>WorkingCopyState := Modified\<rparr>)
        ((NewState ''/repo/D'')\<lparr>UserLocked := ''x''\<rparr>) = Inr (st, ds)
      \<and> WorkingCopyState st = Modified)
   \<and> (\<exists>st ds. CombineWithLockedState ((NewState ''/repo/D'')\<lparr>WorkingCopyState := Modified\<rparr>)
        ((NewState ''/repo/D'')\<lparr>UserLocked := ''x'', bLockedByOther := True\<rparr>) = Inr (st, ds)
      \<and> WorkingCopyState st = ForcedWriteable \<and> IsCheckedOutOther st)
   \<and> (\<exists>st ds. CombineWithLockedState ((NewState ''/repo/D'')\<lparr>WorkingCopyState := Unchanged\<rparr>)
        ((NewState ''/repo/D'')\<lparr>UserLocked := ''x'', bLockedByOther := True\<rparr>) = Inr (st, ds)
      \<and> WorkingCopyState st = Unchanged \<and> IsCheckedOutOther st)"
  using
    CombineWithLockedState_rules [of "(NewState ''/repo/D'')\<lparr>UserLocked := ''x''\<rparr>"
      "(NewState ''/repo/D'')\<lparr>WorkingCopyState := Unchanged\<rparr>"]
    CombineWithLockedState_rules [of "(NewState ''/repo/D'')\<lparr>UserLocked := ''x''\<rparr>"
      "(NewState ''/repo/D'')\<lparr>WorkingCopyState := Modified\<rparr>"]
    CombineWithLockedState_rules [of "(NewState ''/repo/D'')\<lparr>UserLocked := ''x'', bLockedByOther := True\<rparr>"
      "(NewState ''/repo/D'')\<lparr>WorkingCopyState := Modified\<rparr>"]
    CombineWithLockedState_rules [of "(NewState ''/repo/D'')\<lparr>UserLocked := ''x'', bLockedByOther := True\<rparr>"
      "(NewState ''/repo/D'')\<lparr>WorkingCopyState := Unchanged\<rparr>"]
  by (auto simp add: NewState_def IsLockedByMe_def IsModified_def IsCheckedOut_def)

section \<open>Reading a ledger entry (C10)\<close>

text \<open>
  Claim C10 says that \<open>FromJson\<close> reads \<open>StateString[0]\<close> only once the string is
  known not to be empty, and returns false for an object with no \<open>state\<close> string
  field. The guard of the code is
  \<open>!TryGetStringField("state", StateString) && StateString.Len() == 1\<close>: when the
  field is missing the string is still empty, so the guard never holds. For the
  object \<open>{"revision": "1f3a"}\<close>, which has no \<open>state\<close> field, and for the object
  \<open>{"state": "", "revision": "1f3a"}\<close>, the function does not return: it reads
  index 0 of an empty string.
\<close>

theorem FromJson_missing_state_reads_out_of_bounds:
  "FromJson defaultState (Some [(''revision'', JsonString ''1f3a'')]) = Inl IndexOutOfBounds
   \<and> TryGetStringField [(''revision'', JsonString ''1f3a'')] ''state'' = None
   \<and> FromJson defaultState (Some [(''state'', JsonString []), (''revision'', JsonString ''1f3a'')])
       = Inl IndexOutOfBounds"
  by (simp add: FromJson_def TryGetStringField_def)

text \<open>The same for every object whose \<open>state\<close> field is missing or is not a string.\<close>

lemma FromJson_no_state_field:
  "TryGetStringField Obj ''state'' = None \<Longrightarrow> FromJson this (Some Obj) = Inl IndexOutOfBounds"
  by (simp add: FromJson_def)

section \<open>Setting and clearing a ledger entry (C1)\<close>

text \<open>
  Claim C1 says that \<open>SetState\<close> and \<open>ClearState\<close>, called with \<open>bSave = true\<close>, return
  false when the save fails and leave \<open>SavedStates\<close> as it was before the call. They
  return false, and the map is not restored. With the file write failing: setting
  the entry of \<open>/repo/a.uasset\<close>, stored as CheckedOut at revision \<open>0\<close>, to Conflicted
  at \<open>1f3a\<close> leaves the new value in the map, so \<open>GetState\<close> answers Conflicted at
  \<open>1f3a\<close>; clearing that entry leaves it removed, so \<open>GetState\<close> answers the default
  entry.
\<close>

theorem SetState_ClearState_failed_save_not_rolled_back:
  "(case SetState
           \<lparr>ProviderRemote = ''origin'', ProviderBranch = ''master'', MakePathRelativeTo = (\<lambda>p root. drop (length root) p),
            SerializeSucceeds = True, SaveStringToFileSucceeds = False\<rparr>
           \<lparr>bDirty = False,
            SavedStates = [(''/repo/a.uasset'', \<lparr>State = CheckedOut, SavedState.CheckedOutRevision = ''0''\<rparr>)],
            CachedStates = [], LoadedData = None\<rparr>
           ''/repo/a.uasset'' \<lparr>State = Conflicted, SavedState.CheckedOutRevision = ''1f3a''\<rparr> ''/repo'' True of
      Inl e \<Rightarrow> False
    | Inr (Result, this) \<Rightarrow>
        \<not> Result
        \<and> GetState this ''/repo/a.uasset'' = \<lparr>State = Conflicted, SavedState.CheckedOutRevision = ''1f3a''\<rparr>
        \<and> SavedStates this = [(''/repo/a.uasset'', \<lparr>State = Conflicted, SavedState.CheckedOutRevision = ''1f3a''\<rparr>)])
   \<and> (case ClearState
           \<lparr>ProviderRemote = ''origin'', ProviderBranch = ''master'', MakePathRelativeTo = (\<lambda>p root. drop (length root) p),
            SerializeSucceeds = True, SaveStringToFileSucceeds = False\<rparr>
           \<lparr>bDirty = False,
            SavedStates = [(''/repo/a.uasset'', \<lparr>State = CheckedOut, SavedState.CheckedOutRevision = ''0''\<rparr>),
                           (''/repo/b.uasset'', \<lparr>State = CheckedOut, SavedState.CheckedOutRevision = ''0''\<rparr>)],
            CachedStates = [], LoadedData = None\<rparr>
           ''/repo/a.uasset'' ''/repo'' True of
      Inl e \<Rightarrow> False
    | Inr (Result, this) \<Rightarrow>
        \<not> Result
        \<and> GetState this ''/repo/a.uasset'' = defaultState
        \<and> SavedStates this = [(''/repo/b.uasset'', \<lparr>State = CheckedOut, SavedState.CheckedOutRevision = ''0''\<rparr>)])"
  by (simp add: SetState_def ClearState_def Save_def FillJsonStatesMap_def SavedState_IsValid_def
        ToJSon_def SetField_def RemoveField_def GetState_def defaultState_def Let_def)

text \<open>
  What the two functions do on a failed save, for every ledger: \<open>Save\<close> itself never
  changes \<open>SavedStates\<close>; \<open>SetState\<close> of a path with no entry removes the entry it
  added and restores the dirty flag; \<open>SetState\<close> of a path with an entry keeps the new
  value; \<open>ClearState\<close> leaves the entry removed.
\<close>

lemma Save_keeps_SavedStates:
  "Save env this RepositoryRoot bForce = Inr (Result, this')
   \<Longrightarrow> SavedStates this' = SavedStates this"
  by (auto simp: Save_def Let_def ClearCache_def split: if_splits option.splits)

lemma delete_update_absent:
  "map_of xs k = None \<Longrightarrow> AList.delete k (AList.update k v xs) = xs"
  by (simp add: delete_update_same delete_id map_of_eq_None_iff)

lemma SetState_new_entry_rolled_back:
  assumes "map_of (SavedStates this) InFilePath = None"
      and "SetState env this InFilePath InState RepositoryRoot True = Inr (False, this')"
  shows "SavedStates this' = SavedStates this \<and> bDirty this' = bDirty this"
  using assms
  by (auto simp: SetState_def Let_def delete_update_absent
      split: sum.splits if_splits dest!: Save_keeps_SavedStates)

lemma SetState_existing_entry_keeps_new_value:
  assumes "map_of (SavedStates this) InFilePath = Some Old"
      and "SetState env this InFilePath InState RepositoryRoot True = Inr (False, this')"
  shows "GetState this' InFilePath = InState"
  using assms
  by (auto simp: SetState_def GetState_def Let_def update_conv'
      split: sum.splits if_splits dest!: Save_keeps_SavedStates)

lemma ClearState_entry_stays_removed:
  assumes "ClearState env this InFilePath RepositoryRoot True = Inr (False, this')"
  shows "map_of (SavedStates this') InFilePath = None \<and> GetState this' InFilePath = defaultState"
  using assms
  by (auto simp: ClearState_def GetState_def Let_def delete_conv'
      split: sum.splits if_splits dest!: Save_keeps_SavedStates)

section \<open>Publishing states to the cache (C7)\<close>

text \<open>
  The comparison of \<open>FString\<close>s and the equality of states are equivalences; states
  that agree but for the case of their file name are equal states and carry the
  same history.
\<close>

lemma FStringEquals_refl [simp]: "FStringEquals a a"
  by (simp add: FStringEquals_def)

lemma FStringEquals_sym: "FStringEquals a b = FStringEquals b a"
  by (auto simp: FStringEquals_def)

lemma FStringEquals_left: "FStringEquals a b \<Longrightarrow> FStringEquals a c = FStringEquals b c"
  by (simp add: FStringEquals_def)

lemma FStringEquals_right: "FStringEquals a b \<Longrightarrow> FStringEquals c a = FStringEquals c b"
  by (simp add: FStringEquals_def)

lemma operator_eq_refl [simp]: "operator_eq a a"
  by (simp add: operator_eq_def)

lemma operator_eq_sym: "operator_eq a b = operator_eq b a"
  by (auto simp: operator_eq_def FStringEquals_def)

lemma operator_eq_left: "operator_eq a b \<Longrightarrow> operator_eq a c = operator_eq b c"
  by (auto simp: operator_eq_def FStringEquals_def)

lemma Same_refl [simp]: "SameButFilenameCase a a"
  by (simp add: SameButFilenameCase_def)

lemma Same_sym: "SameButFilenameCase a b \<Longrightarrow> SameButFilenameCase b a"
  by (simp add: SameButFilenameCase_def FStringEquals_def)

lemma Same_trans:
  "SameButFilenameCase a b \<Longrightarrow> SameButFilenameCase b c \<Longrightarrow> SameButFilenameCase a c"
  by (simp add: SameButFilenameCase_def FStringEquals_def)

lemma Same_operator_eq: "SameButFilenameCase a b \<Longrightarrow> operator_eq a x = operator_eq b x"
  by (auto simp: SameButFilenameCase_def operator_eq_def FStringEquals_def)

lemma Same_History: "SameButFilenameCase a b \<Longrightarrow> History a = History b"
  by (simp add: SameButFilenameCase_def)

lemma Same_NewState: "FStringEquals g f \<Longrightarrow> SameButFilenameCase (NewState g) (NewState f)"
  by (simp add: SameButFilenameCase_def NewState_def)

lemma CachedState_alt:
  "CachedState Cache f = (case CacheFind Cache f of Some st \<Rightarrow> st | None \<Rightarrow> NewState f)"
  by (simp add: CachedState_def GetStateInternal_def split: option.split)

lemma CacheFind_cong: "FStringEquals g f \<Longrightarrow> CacheFind Cache g = CacheFind Cache f"
  by (induction Cache) (auto simp: FStringEquals_def)

lemma CachedState_cong:
  "FStringEquals g f \<Longrightarrow> SameButFilenameCase (CachedState Cache g) (CachedState Cache f)"
  by (simp add: CachedState_alt CacheFind_cong [of g f] Same_NewState split: option.split)

lemma CacheFind_append:
  "CacheFind (Cache @ [(g, v)]) f
     = (case CacheFind Cache f of
          Some st \<Rightarrow> Some st
        | None \<Rightarrow> if FStringEquals g f then Some v else None)"
  by (induction Cache) auto

lemma CacheFind_assign:
  "CacheFind Cache g \<noteq> None
   \<Longrightarrow> CacheFind (CacheAssign Cache g v) f = (if FStringEquals g f then Some v else CacheFind Cache f)"
  by (induction Cache) (auto simp: FStringEquals_def)

lemma fst_GetStateInternal: "fst (GetStateInternal Cache f) = CachedState Cache f"
  by (simp add: CachedState_def)

lemma CacheFind_after_GetStateInternal:
  "CacheFind (snd (GetStateInternal Cache g)) f
     = (case CacheFind Cache f of
          Some st \<Rightarrow> Some st
        | None \<Rightarrow> if FStringEquals g f then Some (NewState g) else None)"
  using CacheFind_cong [of g f Cache]
  by (auto simp: GetStateInternal_def CacheFind_append split: option.splits)

lemma CacheFind_after_GetStateInternal_same:
  "CacheFind (snd (GetStateInternal Cache g)) g = Some (CachedState Cache g)"
  by (simp add: CacheFind_after_GetStateInternal CachedState_alt split: option.split)

lemma CachedState_after_GetStateInternal:
  "SameButFilenameCase (CachedState (snd (GetStateInternal Cache g)) f) (CachedState Cache f)"
  by (simp add: CachedState_alt CacheFind_after_GetStateInternal Same_NewState split: option.split)

lemma CachedState_after_assign:
  "CachedState (CacheAssign (snd (GetStateInternal Cache g)) g v) f
     = (if FStringEquals g f then v else CachedState (snd (GetStateInternal Cache g)) f)"
  by (simp add: CachedState_alt [of "CacheAssign _ _ _"] CachedState_alt [of "snd _"]
      CacheFind_assign CacheFind_after_GetStateInternal_same)

text \<open>One pass of the loop body, for an incoming state \<open>s\<close>.\<close>

lemma loop_step:
  "UpdateCachedStates_loop Now (s # xs) Cache n =
     (if \<not> operator_eq (CachedState Cache (AbsoluteFilename s)) s
      then UpdateCachedStates_loop Now xs
             (CacheAssign (snd (GetStateInternal Cache (AbsoluteFilename s))) (AbsoluteFilename s)
                (s\<lparr>TimeStamp := Now n, History := History (CachedState Cache (AbsoluteFilename s))\<rparr>))
             (Suc n)
      else UpdateCachedStates_loop Now xs (snd (GetStateInternal Cache (AbsoluteFilename s))) n)"
  by (simp add: CachedState_def operator_neq_def split: prod.split)

declare UpdateCachedStates_loop.simps(2) [simp del]

lemma step_replaced:
  "CachedState (CacheAssign (snd (GetStateInternal Cache g)) g v) f = v
     \<or> SameButFilenameCase (CachedState (CacheAssign (snd (GetStateInternal Cache g)) g v) f)
          (CachedState Cache f)"
  by (simp add: CachedState_after_assign CachedState_after_GetStateInternal)

lemma loop_count_mono:
  "n \<le> snd (UpdateCachedStates_loop Now xs Cache n)"
proof (induction xs arbitrary: Cache n)
  case Nil
  show ?case by simp
next
  case (Cons s xs)
  show ?case
  proof (cases "operator_eq (CachedState Cache (AbsoluteFilename s)) s")
    case True
    with Cons.IH [of n] show ?thesis by (simp add: loop_step)
  next
    case False
    have "Suc n \<le> snd (UpdateCachedStates_loop Now xs
        (CacheAssign (snd (GetStateInternal Cache (AbsoluteFilename s))) (AbsoluteFilename s)
           (s\<lparr>TimeStamp := Now n, History := History (CachedState Cache (AbsoluteFilename s))\<rparr>))
        (Suc n))"
      by (rule Cons.IH)
    with False show ?thesis by (simp add: loop_step)
  qed
qed

lemma loop_history:
  "History (CachedState (fst (UpdateCachedStates_loop Now xs Cache n)) f) = History (CachedState Cache f)"
proof (induction xs arbitrary: Cache n)
  case Nil
  show ?case by simp
next
  case (Cons s xs)
  have c1: "History (CachedState (snd (GetStateInternal Cache (AbsoluteFilename s))) f)
      = History (CachedState Cache f)"
    by (rule Same_History) (rule CachedState_after_GetStateInternal)
  have same: "FStringEquals (AbsoluteFilename s) f
      \<Longrightarrow> History (CachedState Cache (AbsoluteFilename s)) = History (CachedState Cache f)"
    by (rule Same_History) (rule CachedState_cong)
  show ?case
    using c1 same by (simp add: loop_step Cons.IH CachedState_after_assign)
qed

lemma loop_result:
  "(n < snd (UpdateCachedStates_loop Now xs Cache n))
     = (\<exists>s\<in>set xs. \<not> operator_eq (CachedState Cache (AbsoluteFilename s)) s)"
proof (induction xs arbitrary: Cache n)
  case Nil
  show ?case by simp
next
  case (Cons s xs)
  show ?case
  proof (cases "operator_eq (CachedState Cache (AbsoluteFilename s)) s")
    case False
    have "Suc n \<le> snd (UpdateCachedStates_loop Now xs
        (CacheAssign (snd (GetStateInternal Cache (AbsoluteFilename s))) (AbsoluteFilename s)
           (s\<lparr>TimeStamp := Now n, History := History (CachedState Cache (AbsoluteFilename s))\<rparr>))
        (Suc n))"
      by (rule loop_count_mono)
    with False show ?thesis by (auto simp: loop_step)
  next
    case True
    have c1: "\<And>f x. operator_eq (CachedState (snd (GetStateInternal Cache (AbsoluteFilename s))) f) x
        = operator_eq (CachedState Cache f) x"
      by (rule Same_operator_eq) (rule CachedState_after_GetStateInternal)
    from True show ?thesis by (simp add: loop_step Cons.IH c1)
  qed
qed

lemma loop_unchanged:
  "\<forall>s\<in>set xs. FStringEquals (AbsoluteFilename s) f \<longrightarrow> operator_eq (CachedState Cache f) s
   \<Longrightarrow> SameButFilenameCase (CachedState (fst (UpdateCachedStates_loop Now xs Cache n)) f)
         (CachedState Cache f)"
proof (induction xs arbitrary: Cache n)
  case Nil
  show ?case by simp
next
  case (Cons s xs)
  let ?g = "AbsoluteFilename s"
  let ?c1 = "snd (GetStateInternal Cache ?g)"
  let ?c2 = "CacheAssign ?c1 ?g (s\<lparr>TimeStamp := Now n, History := History (CachedState Cache ?g)\<rparr>)"
  have c1: "SameButFilenameCase (CachedState ?c1 f) (CachedState Cache f)"
    by (rule CachedState_after_GetStateInternal)
  show ?case
  proof (cases "operator_eq (CachedState Cache ?g) s")
    case True
    have "\<forall>t\<in>set xs. FStringEquals (AbsoluteFilename t) f \<longrightarrow> operator_eq (CachedState ?c1 f) t"
      using Cons.prems Same_operator_eq [OF c1] by simp
    from Cons.IH [OF this, of n]
    have "SameButFilenameCase (CachedState (fst (UpdateCachedStates_loop Now xs ?c1 n)) f)
        (CachedState ?c1 f)" .
    with c1 True show ?thesis by (simp add: loop_step) (blast intro: Same_trans)
  next
    case False
    have ne: "\<not> FStringEquals ?g f"
    proof
      assume g: "FStringEquals ?g f"
      with Cons.prems have "operator_eq (CachedState Cache f) s" by simp
      moreover have "operator_eq (CachedState Cache ?g) s = operator_eq (CachedState Cache f) s"
        by (rule Same_operator_eq) (rule CachedState_cong [OF g])
      ultimately show False using False by simp
    qed
    have c2: "SameButFilenameCase (CachedState ?c2 f) (CachedState Cache f)"
      using ne c1 by (simp add: CachedState_after_assign)
    have "\<forall>t\<in>set xs. FStringEquals (AbsoluteFilename t) f \<longrightarrow> operator_eq (CachedState ?c2 f) t"
      using Cons.prems Same_operator_eq [OF c2] by simp
    from Cons.IH [OF this, of "Suc n"]
    have "SameButFilenameCase (CachedState (fst (UpdateCachedStates_loop Now xs ?c2 (Suc n))) f)
        (CachedState ?c2 f)" .
    with c2 False show ?thesis by (simp add: loop_step) (blast intro: Same_trans)
  qed
qed

lemma loop_unchanged_found:
  "\<forall>s\<in>set xs. FStringEquals (AbsoluteFilename s) f \<longrightarrow> operator_eq (CachedState Cache f) s
   \<Longrightarrow> CacheFind Cache f = Some e
   \<Longrightarrow> CacheFind (fst (UpdateCachedStates_loop Now xs Cache n)) f = Some e"
proof (induction xs arbitrary: Cache n)
  case Nil
  then show ?case by simp
next
  case (Cons s xs)
  let ?g = "AbsoluteFilename s"
  let ?c1 = "snd (GetStateInternal Cache ?g)"
  let ?c2 = "CacheAssign ?c1 ?g (s\<lparr>TimeStamp := Now n, History := History (CachedState Cache ?g)\<rparr>)"
  have f1: "CacheFind ?c1 f = Some e"
    using Cons.prems(2) by (simp add: CacheFind_after_GetStateInternal)
  have l: "CachedState Cache f = e" "CachedState ?c1 f = e"
    using Cons.prems(2) f1 by (simp_all add: CachedState_alt)
  show ?case
  proof (cases "operator_eq (CachedState Cache ?g) s")
    case True
    have "CacheFind (fst (UpdateCachedStates_loop Now xs ?c1 n)) f = Some e"
      by (rule Cons.IH) (use Cons.prems(1) l f1 in simp_all)
    with True show ?thesis by (simp add: loop_step)
  next
    case False
    have ne: "\<not> FStringEquals ?g f"
    proof
      assume g: "FStringEquals ?g f"
      with Cons.prems(1) have "operator_eq (CachedState Cache f) s" by simp
      moreover have "operator_eq (CachedState Cache ?g) s = operator_eq (CachedState Cache f) s"
        by (rule Same_operator_eq) (rule CachedState_cong [OF g])
      ultimately show False using False by simp
    qed
    have f2: "CacheFind ?c2 f = Some e"
      using ne f1 by (simp add: CacheFind_assign CacheFind_after_GetStateInternal_same)
    then have l2: "CachedState ?c2 f = e" by (simp add: CachedState_alt)
    have "CacheFind (fst (UpdateCachedStates_loop Now xs ?c2 (Suc n))) f = Some e"
      by (rule Cons.IH) (use Cons.prems(1) l l2 f2 in simp_all)
    with False show ?thesis by (simp add: loop_step)
  qed
qed

lemma CacheFind_None_after_GetStateInternal:
  "CacheFind (snd (GetStateInternal Cache g)) f = None \<Longrightarrow> CacheFind Cache f = None"
  by (simp add: CacheFind_after_GetStateInternal split: option.splits if_splits)

lemma loop_replaced:
  "CacheFind (fst (UpdateCachedStates_loop Now xs Cache n)) f = CacheFind Cache f
   \<or> (CacheFind Cache f = None
       \<and> (\<exists>s\<in>set xs. FStringEquals (AbsoluteFilename s) f
             \<and> CacheFind (fst (UpdateCachedStates_loop Now xs Cache n)) f
                 = Some (NewState (AbsoluteFilename s))))
   \<or> (\<exists>s\<in>set xs. \<exists>k. n \<le> k \<and> k < n + length xs \<and> FStringEquals (AbsoluteFilename s) f
        \<and> CacheFind (fst (UpdateCachedStates_loop Now xs Cache n)) f
            = Some (s\<lparr>TimeStamp := Now k, History := History (CachedState Cache f)\<rparr>))"
proof (induction xs arbitrary: Cache n)
  case Nil
  show ?case by simp
next
  case (Cons s xs)
  let ?g = "AbsoluteFilename s"
  let ?c1 = "snd (GetStateInternal Cache ?g)"
  let ?v = "s\<lparr>TimeStamp := Now n, History := History (CachedState Cache ?g)\<rparr>"
  let ?c2 = "CacheAssign ?c1 ?g ?v"
  have c1: "SameButFilenameCase (CachedState ?c1 f) (CachedState Cache f)"
    by (rule CachedState_after_GetStateInternal)
  have f1: "CacheFind ?c1 f = CacheFind Cache f
      \<or> (CacheFind Cache f = None \<and> FStringEquals ?g f \<and> CacheFind ?c1 f = Some (NewState ?g))"
    by (simp add: CacheFind_after_GetStateInternal split: option.split)
  have n1: "CacheFind ?c1 f = None \<Longrightarrow> CacheFind Cache f = None"
    by (rule CacheFind_None_after_GetStateInternal)
  have hg: "FStringEquals ?g f \<Longrightarrow> History (CachedState Cache ?g) = History (CachedState Cache f)"
    by (rule Same_History) (rule CachedState_cong)
  have f2: "CacheFind ?c2 f = (if FStringEquals ?g f then Some ?v else CacheFind ?c1 f)"
    by (simp add: CacheFind_assign CacheFind_after_GetStateInternal_same)
  have c2: "CachedState ?c2 f = (if FStringEquals ?g f then ?v else CachedState ?c1 f)"
    by (rule CachedState_after_assign)
  have h2: "History (CachedState ?c2 f) = History (CachedState Cache f)"
    using c2 hg Same_History [OF c1] by simp
  show ?case
  proof (cases "operator_eq (CachedState Cache ?g) s")
    case True
    let ?final = "fst (UpdateCachedStates_loop Now xs ?c1 n)"
    have final: "fst (UpdateCachedStates_loop Now (s # xs) Cache n) = ?final"
      using True by (simp add: loop_step)
    from Cons.IH [of ?c1 n]
    consider (same) "CacheFind ?final f = CacheFind ?c1 f"
      | (added) s' where "CacheFind ?c1 f = None" "s' \<in> set xs"
          "FStringEquals (AbsoluteFilename s') f"
          "CacheFind ?final f = Some (NewState (AbsoluteFilename s'))"
      | (later) s' k where "s' \<in> set xs" "n \<le> k" "k < n + length xs"
          "FStringEquals (AbsoluteFilename s') f"
          "CacheFind ?final f
             = Some (s'\<lparr>TimeStamp := Now k, History := History (CachedState ?c1 f)\<rparr>)"
      by blast
    then show ?thesis
    proof cases
      case same
      from f1 show ?thesis
      proof
        assume "CacheFind ?c1 f = CacheFind Cache f"
        with same final show ?thesis by simp
      next
        assume a: "CacheFind Cache f = None \<and> FStringEquals ?g f
            \<and> CacheFind ?c1 f = Some (NewState ?g)"
        with same final show ?thesis
          by (intro disjI2 disjI1 conjI bexI [of _ s]) simp_all
      qed
    next
      case added
      with n1 final show ?thesis
        by (intro disjI2 disjI1 conjI bexI [of _ s']) simp_all
    next
      case later
      from later(5) Same_History [OF c1] have "CacheFind ?final f
          = Some (s'\<lparr>TimeStamp := Now k, History := History (CachedState Cache f)\<rparr>)"
        by simp
      with later(1-4) final show ?thesis
        by (intro disjI2 bexI [of _ s'] exI [of _ k]) simp_all
    qed
  next
    case False
    let ?final = "fst (UpdateCachedStates_loop Now xs ?c2 (Suc n))"
    have final: "fst (UpdateCachedStates_loop Now (s # xs) Cache n) = ?final"
      using False by (simp add: loop_step)
    from Cons.IH [of ?c2 "Suc n"]
    consider (same) "CacheFind ?final f = CacheFind ?c2 f"
      | (added) s' where "CacheFind ?c2 f = None" "s' \<in> set xs"
          "FStringEquals (AbsoluteFilename s') f"
          "CacheFind ?final f = Some (NewState (AbsoluteFilename s'))"
      | (later) s' k where "s' \<in> set xs" "Suc n \<le> k" "k < Suc n + length xs"
          "FStringEquals (AbsoluteFilename s') f"
          "CacheFind ?final f
             = Some (s'\<lparr>TimeStamp := Now k, History := History (CachedState ?c2 f)\<rparr>)"
      by blast
    then show ?thesis
    proof cases
      case same
      show ?thesis
      proof (cases "FStringEquals ?g f")
        case True
        with same f2 hg have "CacheFind ?final f
            = Some (s\<lparr>TimeStamp := Now n, History := History (CachedState Cache f)\<rparr>)"
          by simp
        with True final show ?thesis
          by (intro disjI2 bexI [of _ s] exI [of _ n]) simp_all
      next
        case False
        with same f2 f1 final show ?thesis by simp
      qed
    next
      case added
      from added(1) f2 have "\<not> FStringEquals ?g f" "CacheFind ?c1 f = None"
        by (simp_all split: if_splits)
      with n1 have "CacheFind Cache f = None" by simp
      with added final show ?thesis
        by (intro disjI2 disjI1 conjI bexI [of _ s']) simp_all
    next
      case later
      from later(5) h2 have "CacheFind ?final f
          = Some (s'\<lparr>TimeStamp := Now k, History := History (CachedState Cache f)\<rparr>)"
        by simp
      with later(1-4) final show ?thesis
        by (intro disjI2 bexI [of _ s'] exI [of _ k]) simp_all
    qed
  qed
qed

lemma operator_eq_replaced [simp]:
  "operator_eq (s\<lparr>TimeStamp := t, History := h\<rparr>) x = operator_eq s x"
  by (simp add: operator_eq_def)

lemma loop_last:
  "\<forall>t\<in>set post. \<not> FStringEquals (AbsoluteFilename t) (AbsoluteFilename s)
   \<Longrightarrow> operator_eq
         (CachedState (fst (UpdateCachedStates_loop Now (pre @ s # post) Cache n)) (AbsoluteFilename s)) s"
proof (induction pre arbitrary: Cache n)
  case Nil
  let ?g = "AbsoluteFilename s"
  let ?c1 = "snd (GetStateInternal Cache ?g)"
  let ?v = "s\<lparr>TimeStamp := Now n, History := History (CachedState Cache ?g)\<rparr>"
  let ?c2 = "CacheAssign ?c1 ?g ?v"
  have vac: "\<And>c. \<forall>t\<in>set post. FStringEquals (AbsoluteFilename t) ?g
      \<longrightarrow> operator_eq (CachedState c ?g) t"
    using Nil.prems by simp
  show ?case
  proof (cases "operator_eq (CachedState Cache ?g) s")
    case True
    have "CachedState ?c1 ?g = CachedState Cache ?g"
      by (simp add: CachedState_alt [of ?c1] CacheFind_after_GetStateInternal_same)
    with True have e: "operator_eq (CachedState ?c1 ?g) s" by simp
    have "SameButFilenameCase (CachedState (fst (UpdateCachedStates_loop Now post ?c1 n)) ?g)
        (CachedState ?c1 ?g)"
      by (rule loop_unchanged) (rule vac)
    from Same_operator_eq [OF this] e True show ?thesis by (simp add: loop_step)
  next
    case False
    have e: "operator_eq (CachedState ?c2 ?g) s"
      by (simp add: CachedState_after_assign)
    have "SameButFilenameCase (CachedState (fst (UpdateCachedStates_loop Now post ?c2 (Suc n))) ?g)
        (CachedState ?c2 ?g)"
      by (rule loop_unchanged) (rule vac)
    from Same_operator_eq [OF this] e False show ?thesis by (simp add: loop_step)
  qed
next
  case (Cons p pre)
  show ?case
    using Cons.IH [OF Cons.prems] by (simp add: loop_step)
qed

lemma operator_eq_fields:
  "operator_eq a (a\<lparr>TimeStamp := t, LockId := l, History := h\<rparr>)"
  "operator_eq a b =
        (WorkingCopyState a = WorkingCopyState b \<and> RemoteState a = RemoteState b
         \<and> bOutdated a = bOutdated b \<and> bStaged a = bStaged b
         \<and> FStringEquals (CheckedOutRevision a) (CheckedOutRevision b)
         \<and> FStringEquals (AbsoluteFilename a) (AbsoluteFilename b)
         \<and> FStringEquals (UserLocked a) (UserLocked b) \<and> bLockedByOther a = bLockedByOther b)"
  by (simp_all add: operator_eq_def)

text \<open>
  Claim C7. State equality compares the eight fields WorkingCopyState, RemoteState,
  bOutdated, bStaged, CheckedOutRevision, AbsoluteFilename, UserLocked and
  bLockedByOther (the three strings as \<open>FString\<close>s) and ignores TimeStamp, LockId
  and History. For a call of \<open>UpdateCachedStates\<close>:
  \<^item> it returns true exactly when some state of \<open>InStates\<close> differs, by that
    equality, from the state cached for its file;
  \<^item> the state cached for a file whose incoming states all equal it is left as it
    was, the very entry if there was one;
  \<^item> after the call the cache holds, for the file of every incoming state, a state
    equal to the last state that came in for that file;
  \<^item> where one state came in for a file and differed from the cached one, the
    cache then holds that state with a fresh time stamp and the history cached
    before;
  \<^item> whatever the incoming list, a cached state is afterwards either as before or
    an incoming state for its file with a fresh time stamp and the history cached
    before, and the history held for any file is the same before and after;
  \<^item> when it returns true and no two incoming states are for the same file, some
    file's cached state has changed in one of the eight fields.
\<close>

theorem UpdateCachedStates_republishes_on_difference:
  "operator_eq a (a\<lparr>TimeStamp := t, LockId := l, History := h\<rparr>)
   \<and> (operator_eq a b =
        (WorkingCopyState a = WorkingCopyState b \<and> RemoteState a = RemoteState b
         \<and> bOutdated a = bOutdated b \<and> bStaged a = bStaged b
         \<and> FStringEquals (CheckedOutRevision a) (CheckedOutRevision b)
         \<and> FStringEquals (AbsoluteFilename a) (AbsoluteFilename b)
         \<and> FStringEquals (UserLocked a) (UserLocked b) \<and> bLockedByOther a = bLockedByOther b))
   \<and> (case UpdateCachedStates Now InStates Cache of
        (Result, Cache') \<Rightarrow>
          (Result = (\<exists>s\<in>set InStates. \<not> operator_eq (CachedState Cache (AbsoluteFilename s)) s))
          \<and> (\<forall>f. (\<forall>s\<in>set InStates. FStringEquals (AbsoluteFilename s) f
                        \<longrightarrow> operator_eq (CachedState Cache f) s)
                 \<longrightarrow> SameButFilenameCase (CachedState Cache' f) (CachedState Cache f)
                     \<and> (\<forall>e. CacheFind Cache f = Some e \<longrightarrow> CacheFind Cache' f = Some e))
          \<and> (\<forall>pre s post. InStates = pre @ s # post
                 \<and> (\<forall>u\<in>set post. \<not> FStringEquals (AbsoluteFilename u) (AbsoluteFilename s))
                 \<longrightarrow> operator_eq (CachedState Cache' (AbsoluteFilename s)) s)
          \<and> (\<forall>pre s post. InStates = pre @ s # post
                 \<and> (\<forall>u\<in>set pre \<union> set post. \<not> FStringEquals (AbsoluteFilename u) (AbsoluteFilename s))
                 \<and> \<not> operator_eq (CachedState Cache (AbsoluteFilename s)) s
                 \<longrightarrow> (\<exists>k<length InStates. CachedState Cache' (AbsoluteFilename s)
                        = s\<lparr>TimeStamp := Now k,
                            History := History (CachedState Cache (AbsoluteFilename s))\<rparr>))
          \<and> (\<forall>f. SameButFilenameCase (CachedState Cache' f) (CachedState Cache f)
                 \<or> (\<exists>s\<in>set InStates. \<exists>k<length InStates. FStringEquals (AbsoluteFilename s) f
                      \<and> CachedState Cache' f
                          = s\<lparr>TimeStamp := Now k, History := History (CachedState Cache f)\<rparr>))
          \<and> (\<forall>f. History (CachedState Cache' f) = History (CachedState Cache f))
          \<and> (Result \<and> distinct (map (\<lambda>s. map ToLower (AbsoluteFilename s)) InStates)
               \<longrightarrow> (\<exists>s\<in>set InStates.
                      \<not> operator_eq (CachedState Cache (AbsoluteFilename s)) s
                      \<and> operator_eq (CachedState Cache' (AbsoluteFilename s)) s
                      \<and> \<not> operator_eq (CachedState Cache' (AbsoluteFilename s))
                            (CachedState Cache (AbsoluteFilename s)))))"
proof -
  obtain c' n where l: "UpdateCachedStates_loop Now InStates Cache 0 = (c', n)"
    by (cases "UpdateCachedStates_loop Now InStates Cache 0")
  have c': "c' = fst (UpdateCachedStates_loop Now InStates Cache 0)"
    using l by simp
  have r: "(0 < n) = (\<exists>s\<in>set InStates. \<not> operator_eq (CachedState Cache (AbsoluteFilename s)) s)"
    using loop_result [of 0 Now InStates Cache] l by simp
  have u: "\<forall>f. (\<forall>s\<in>set InStates. FStringEquals (AbsoluteFilename s) f
                   \<longrightarrow> operator_eq (CachedState Cache f) s)
      \<longrightarrow> SameButFilenameCase (CachedState c' f) (CachedState Cache f)
          \<and> (\<forall>e. CacheFind Cache f = Some e \<longrightarrow> CacheFind c' f = Some e)"
    unfolding c' by (intro allI impI conjI loop_unchanged loop_unchanged_found) simp_all
  have last: "\<forall>pre s post. InStates = pre @ s # post
      \<and> (\<forall>u\<in>set post. \<not> FStringEquals (AbsoluteFilename u) (AbsoluteFilename s))
      \<longrightarrow> operator_eq (CachedState c' (AbsoluteFilename s)) s"
    unfolding c' using loop_last by blast
  have p: "SameButFilenameCase (CachedState c' f) (CachedState Cache f)
      \<or> (\<exists>s\<in>set InStates. \<exists>k<length InStates. FStringEquals (AbsoluteFilename s) f
           \<and> CachedState c' f = s\<lparr>TimeStamp := Now k, History := History (CachedState Cache f)\<rparr>)"
    for f
  proof -
    from loop_replaced [of Now InStates Cache 0 f]
    consider (same) "CacheFind c' f = CacheFind Cache f"
      | (added) s where "CacheFind Cache f = None" "s \<in> set InStates"
          "FStringEquals (AbsoluteFilename s) f" "CacheFind c' f = Some (NewState (AbsoluteFilename s))"
      | (later) s k where "s \<in> set InStates" "k < length InStates"
          "FStringEquals (AbsoluteFilename s) f"
          "CacheFind c' f = Some (s\<lparr>TimeStamp := Now k, History := History (CachedState Cache f)\<rparr>)"
      unfolding c' by auto
    then show ?thesis
    proof cases
      case same
      then show ?thesis by (simp add: CachedState_alt)
    next
      case added
      then show ?thesis by (simp add: CachedState_alt Same_NewState)
    next
      case later
      from later(4) have "CachedState c' f
          = s\<lparr>TimeStamp := Now k, History := History (CachedState Cache f)\<rparr>"
        by (simp add: CachedState_alt [of c'])
      with later(1-3) show ?thesis by blast
    qed
  qed
  have h: "\<forall>f. History (CachedState c' f) = History (CachedState Cache f)"
    unfolding c' by (simp add: loop_history)
  have only: "\<exists>k<length InStates. CachedState c' (AbsoluteFilename s)
        = s\<lparr>TimeStamp := Now k, History := History (CachedState Cache (AbsoluteFilename s))\<rparr>"
    if i: "InStates = pre @ s # post"
      and o: "\<forall>u\<in>set pre \<union> set post. \<not> FStringEquals (AbsoluteFilename u) (AbsoluteFilename s)"
      and d: "\<not> operator_eq (CachedState Cache (AbsoluteFilename s)) s"
    for pre s post
  proof -
    from last i o have e: "operator_eq (CachedState c' (AbsoluteFilename s)) s" by blast
    from p [of "AbsoluteFilename s"] show ?thesis
    proof
      assume "SameButFilenameCase (CachedState c' (AbsoluteFilename s))
          (CachedState Cache (AbsoluteFilename s))"
      from Same_operator_eq [OF this, of s] e d show ?thesis by simp
    next
      assume "\<exists>s'\<in>set InStates. \<exists>k<length InStates.
          FStringEquals (AbsoluteFilename s') (AbsoluteFilename s)
          \<and> CachedState c' (AbsoluteFilename s)
              = s'\<lparr>TimeStamp := Now k, History := History (CachedState Cache (AbsoluteFilename s))\<rparr>"
      then obtain s' k where k: "s' \<in> set InStates" "k < length InStates"
          "FStringEquals (AbsoluteFilename s') (AbsoluteFilename s)"
          "CachedState c' (AbsoluteFilename s)
              = s'\<lparr>TimeStamp := Now k, History := History (CachedState Cache (AbsoluteFilename s))\<rparr>"
        by blast
      from k(1) k(3) i o have "s' = s" by auto
      with k(2) k(4) show ?thesis by blast
    qed
  qed
  have dist: "\<exists>s\<in>set InStates.
          \<not> operator_eq (CachedState Cache (AbsoluteFilename s)) s
          \<and> operator_eq (CachedState c' (AbsoluteFilename s)) s
          \<and> \<not> operator_eq (CachedState c' (AbsoluteFilename s)) (CachedState Cache (AbsoluteFilename s))"
    if res: "0 < n" and di: "distinct (map (\<lambda>s. map ToLower (AbsoluteFilename s)) InStates)"
  proof -
    from res r obtain s where s: "s \<in> set InStates"
        "\<not> operator_eq (CachedState Cache (AbsoluteFilename s)) s"
      by blast
    from s(1) obtain pre post where i: "InStates = pre @ s # post"
      by (auto dest: split_list)
    from di i have "map ToLower (AbsoluteFilename s)
        \<notin> (\<lambda>s. map ToLower (AbsoluteFilename s)) ` set post"
      by simp
    then have "\<forall>u\<in>set post. \<not> FStringEquals (AbsoluteFilename u) (AbsoluteFilename s)"
      unfolding FStringEquals_def by (metis imageI)
    with last i have e: "operator_eq (CachedState c' (AbsoluteFilename s)) s" by blast
    have "\<not> operator_eq (CachedState c' (AbsoluteFilename s)) (CachedState Cache (AbsoluteFilename s))"
    proof
      assume "operator_eq (CachedState c' (AbsoluteFilename s)) (CachedState Cache (AbsoluteFilename s))"
      from operator_eq_left [OF this, of s] e s(2) show False by simp
    qed
    with s e show ?thesis by blast
  qed
  have body: "case UpdateCachedStates Now InStates Cache of
        (Result, Cache') \<Rightarrow>
          (Result = (\<exists>s\<in>set InStates. \<not> operator_eq (CachedState Cache (AbsoluteFilename s)) s))
          \<and> (\<forall>f. (\<forall>s\<in>set InStates. FStringEquals (AbsoluteFilename s) f
                        \<longrightarrow> operator_eq (CachedState Cache f) s)
                 \<longrightarrow> SameButFilenameCase (CachedState Cache' f) (CachedState Cache f)
                     \<and> (\<forall>e. CacheFind Cache f = Some e \<longrightarrow> CacheFind Cache' f = Some e))
          \<and> (\<forall>pre s post. InStates = pre @ s # post
                 \<and> (\<forall>u\<in>set post. \<not> FStringEquals (AbsoluteFilename u) (AbsoluteFilename s))
                 \<longrightarrow> operator_eq (CachedState Cache' (AbsoluteFilename s)) s)
          \<and> (\<forall>pre s post. InStates = pre @ s # post
                 \<and> (\<forall>u\<in>set pre \<union> set post. \<not> FStringEquals (AbsoluteFilename u) (AbsoluteFilename s))
                 \<and> \<not> operator_eq (CachedState Cache (AbsoluteFilename s)) s
                 \<longrightarrow> (\<exists>k<length InStates. CachedState Cache' (AbsoluteFilename s)
                        = s\<lparr>TimeStamp := Now k,
                            History := History (CachedState Cache (AbsoluteFilename s))\<rparr>))
          \<and> (\<forall>f. SameButFilenameCase (CachedState Cache' f) (CachedState Cache f)
                 \<or> (\<exists>s\<in>set InStates. \<exists>k<length InStates. FStringEquals (AbsoluteFilename s) f
                      \<and> CachedState Cache' f
                          = s\<lparr>TimeStamp := Now k, History := History (CachedState Cache f)\<rparr>))
          \<and> (\<forall>f. History (CachedState Cache' f) = History (CachedState Cache f))
          \<and> (Result \<and> distinct (map (\<lambda>s. map ToLower (AbsoluteFilename s)) InStates)
               \<longrightarrow> (\<exists>s\<in>set InStates.
                      \<not> operator_eq (CachedState Cache (AbsoluteFilename s)) s
                      \<and> operator_eq (CachedState Cache' (AbsoluteFilename s)) s
                      \<and> \<not> operator_eq (CachedState Cache' (AbsoluteFilename s))
                            (CachedState Cache (AbsoluteFilename s))))"
    unfolding UpdateCachedStates_def l prod.case
    using r u last only p h dist by blast
  show ?thesis
    by (intro conjI operator_eq_fields body)
qed

text \<open>
  At a cache holding \<open>/repo/a\<close> as Unchanged with two revisions of history, and
  incoming states Modified for \<open>/Repo/A\<close>, the same file in another case, and
  unknown for the uncached \<open>/repo/b\<close>: the call returns true, \<open>/repo/a\<close> is now
  Modified with the time of the call and the history it had, and \<open>/repo/b\<close> holds
  the placeholder.
\<close>

theorem UpdateCachedStates_republishes_on_difference_witness:
  "fst (UpdateCachedStates (\<lambda>k. 100 + int k)
          [(NewState ''/Repo/A'')\<lparr>WorkingCopyState := Modified\<rparr>, NewState ''/repo/b'']
          [(''/repo/a'', (NewState ''/repo/a'')\<lparr>WorkingCopyState := Unchanged,
               History := [''r2'', ''r1''], TimeStamp := 5\<rparr>)])
   \<and> CachedState (snd (UpdateCachedStates (\<lambda>k. 100 + int k)
          [(NewState ''/Repo/A'')\<lparr>WorkingCopyState := Modified\<rparr>, NewState ''/repo/b'']
          [(''/repo/a'', (NewState ''/repo/a'')\<lparr>WorkingCopyState := Unchanged,
               History := [''r2'', ''r1''], TimeStamp := 5\<rparr>)])) ''/repo/a''
       = (NewState ''/Repo/A'')\<lparr>WorkingCopyState := Modified, TimeStamp := 100,
            History := [''r2'', ''r1'']\<rparr>
   \<and> CachedState (snd (UpdateCachedStates (\<lambda>k. 100 + int k)
          [(NewState ''/Repo/A'')\<lparr>WorkingCopyState := Modified\<rparr>, NewState ''/repo/b'']
          [(''/repo/a'', (NewState ''/repo/a'')\<lparr>WorkingCopyState := Unchanged,
               History := [''r2'', ''r1''], TimeStamp := 5\<rparr>)])) ''/repo/b'' = NewState ''/repo/b''"
proof -
  let ?a = "(NewState ''/Repo/A'')\<lparr>WorkingCopyState := Modified\<rparr>"
  let ?b = "NewState ''/repo/b''"
  let ?cache = "[(''/repo/a'', (NewState ''/repo/a'')\<lparr>WorkingCopyState := Unchanged,
               History := [''r2'', ''r1''], TimeStamp := 5\<rparr>)]"
  let ?run = "UpdateCachedStates (\<lambda>k. 100 + int k) [?a, ?b] ?cache"
  have names: "FStringEquals ''/Repo/A'' ''/repo/a''" "\<not> FStringEquals ''/repo/b'' ''/Repo/A''"
    "\<not> FStringEquals ''/repo/a'' ''/repo/b''"
    by (simp_all add: FStringEquals_def ToLower_def)
  have differs: "\<not> operator_eq (CachedState ?cache (AbsoluteFilename ?a)) ?a"
    using names by (simp add: CachedState_def GetStateInternal_def operator_eq_def NewState_def)
  note body = UpdateCachedStates_republishes_on_difference
    [where a = ?a and t = 0 and l = 0 and h = "[]" and b = ?b
       and Now = "\<lambda>k. 100 + int k" and InStates = "[?a, ?b]" and Cache = ?cache,
     THEN conjunct2, THEN conjunct2]
  obtain Result Cache' where run: "?run = (Result, Cache')"
    by (cases ?run)
  note facts = body [unfolded run prod.case]
  have result: "Result"
    using facts [THEN conjunct1] differs by simp
  have only: "\<exists>k<length [?a, ?b]. CachedState Cache' (AbsoluteFilename ?a)
      = ?a\<lparr>TimeStamp := 100 + int k, History := History (CachedState ?cache (AbsoluteFilename ?a))\<rparr>"
    using facts [THEN conjunct2, THEN conjunct2, THEN conjunct2, THEN conjunct1, rule_format,
        of "[]" ?a "[?b]"] differs names
    by (simp add: NewState_def)
  have ev: "snd ?run
      = [(''/repo/a'', ?a\<lparr>TimeStamp := 100, History := [''r2'', ''r1'']\<rparr>), (''/repo/b'', ?b)]"
    by (simp add: UpdateCachedStates_def UpdateCachedStates_loop.simps GetStateInternal_def
          NewState_def operator_eq_def operator_neq_def FStringEquals_def ToLower_def)
  from result run have "fst ?run" by simp
  moreover from only ev run
  have "CachedState (snd ?run) ''/repo/a''
      = (NewState ''/Repo/A'')\<lparr>WorkingCopyState := Modified, TimeStamp := 100,
            History := [''r2'', ''r1'']\<rparr>"
    by (simp add: CachedState_def GetStateInternal_def NewState_def FStringEquals_def ToLower_def)
  moreover from ev have "CachedState (snd ?run) ''/repo/b'' = NewState ''/repo/b''"
    by (simp add: CachedState_def GetStateInternal_def FStringEquals_def ToLower_def)
  ultimately show ?thesis by blast
qed

section \<open>One command per tick (C8)\<close>

text \<open>
  The loop of the tick, by cases on the queue: with no processed command it does
  nothing; otherwise it handles the first processed command, the commands before
  it being unprocessed.
\<close>

lemma Tick_loop_none:
  "\<forall>c\<in>set Queue. \<not> bExecuteProcessed c
   \<Longrightarrow> Tick_loop Delegate this Scanned Queue = (this, False, [])"
  by (induction Queue arbitrary: Scanned) simp_all

lemma Tick_loop_first:
  "\<exists>c\<in>set Queue. bExecuteProcessed c
   \<Longrightarrow> \<exists>Before Cmd After. Queue = Before @ Cmd # After
         \<and> (\<forall>c\<in>set Before. \<not> bExecuteProcessed c) \<and> bExecuteProcessed Cmd
         \<and> Tick_loop Delegate this Scanned Queue
             = Tick_process Delegate this (Scanned @ Before) Cmd After"
proof (induction Queue arbitrary: Scanned)
  case Nil
  then show ?case by simp
next
  case (Cons c Queue)
  show ?case
  proof (cases "bExecuteProcessed c")
    case True
    then have "c # Queue = [] @ c # Queue \<and> (\<forall>c\<in>set []. \<not> bExecuteProcessed c)
        \<and> bExecuteProcessed c
        \<and> Tick_loop Delegate this Scanned (c # Queue)
            = Tick_process Delegate this (Scanned @ []) c Queue"
      by simp
    then show ?thesis by blast
  next
    case False
    with Cons.prems have "\<exists>c\<in>set Queue. bExecuteProcessed c" by simp
    from Cons.IH [OF this, of "Scanned @ [c]"]
    obtain Before Cmd After where
      q: "Queue = Before @ Cmd # After" and
      b: "\<forall>c\<in>set Before. \<not> bExecuteProcessed c" and
      p: "bExecuteProcessed Cmd" and
      t: "Tick_loop Delegate this (Scanned @ [c]) Queue
            = Tick_process Delegate this ((Scanned @ [c]) @ Before) Cmd After"
      by blast
    from q b p t False
    have "c # Queue = (c # Before) @ Cmd # After
        \<and> (\<forall>c\<in>set (c # Before). \<not> bExecuteProcessed c) \<and> bExecuteProcessed Cmd
        \<and> Tick_loop Delegate this Scanned (c # Queue)
            = Tick_process Delegate this (Scanned @ (c # Before)) Cmd After"
      by simp
    then show ?thesis by blast
  qed
qed

lemma UpdateStatesCalls_append:
  "UpdateStatesCalls (es @ fs) = UpdateStatesCalls es @ UpdateStatesCalls fs"
  by (induction es rule: UpdateStatesCalls.induct) simp_all

lemma DelegateCalls_append:
  "DelegateCalls (es @ fs) = DelegateCalls es @ DelegateCalls fs"
  by (induction es rule: DelegateCalls.induct) simp_all

lemma Tick_process_effect:
  "Tick_process Delegate this Scanned Cmd After = (this', b, Events)
   \<Longrightarrow> (if DelegateIsBound Cmd
        then (case Delegate (CommandAddress Cmd) (bCommandSuccessful Cmd)
                     (if WorkerIsConnected Cmd
                      then this\<lparr>CommandQueue := Scanned @ After, bConnected := True\<rparr>
                      else this\<lparr>CommandQueue := Scanned @ After\<rparr>) of
                (Returned, DelegateEvents) \<Rightarrow>
                  CommandQueue this' = CommandQueue Returned
                  \<and> UpdateStatesCalls Events = CommandAddress Cmd # UpdateStatesCalls DelegateEvents
                  \<and> DelegateCalls Events
                      = (CommandAddress Cmd, bCommandSuccessful Cmd) # DelegateCalls DelegateEvents)
        else CommandQueue this' = Scanned @ After
             \<and> UpdateStatesCalls Events = [CommandAddress Cmd] \<and> DelegateCalls Events = [])"
  by (auto simp: Tick_process_def Let_def UpdateStatesCalls_append DelegateCalls_append
      split: prod.splits)

text \<open>
  Claim C8, as amended. When no queued command has been processed, a call of \<open>Tick\<close>
  leaves the queue as it is, calls no \<open>UpdateStates\<close> and executes no delegate. When
  some have, the loop of the tick takes the first of them in queue order, and only
  it: it removes it from the queue, calls its \<open>UpdateStates\<close> and, if one is bound,
  its completion delegate, which is handed the provider with every other command,
  the other processed ones among them, still queued in order. With no delegate
  bound this is the queue the tick leaves, and one \<open>UpdateStates\<close> is all it
  called. With a delegate bound, the queue the tick leaves is the one the delegate
  left, and the calls of \<open>UpdateStates\<close> and of delegates during the tick are this
  one command's followed by those made inside the delegate.
\<close>

theorem Tick_one_command_per_tick:
  "case Tick Delegate this of
     (this', Events) \<Rightarrow>
       ((\<forall>c\<in>set (CommandQueue this). \<not> bExecuteProcessed c)
            \<longrightarrow> CommandQueue this' = CommandQueue this
                \<and> UpdateStatesCalls Events = [] \<and> DelegateCalls Events = [])
       \<and> ((\<exists>c\<in>set (CommandQueue this). bExecuteProcessed c)
            \<longrightarrow> (\<exists>Before Cmd After.
                   CommandQueue this = Before @ Cmd # After
                   \<and> (\<forall>c\<in>set Before. \<not> bExecuteProcessed c) \<and> bExecuteProcessed Cmd
                   \<and> (if DelegateIsBound Cmd
                       then (case Delegate (CommandAddress Cmd) (bCommandSuccessful Cmd)
                                    (if WorkerIsConnected Cmd
                                     then this\<lparr>CommandQueue := Before @ After, bConnected := True\<rparr>
                                     else this\<lparr>CommandQueue := Before @ After\<rparr>) of
                               (Returned, DelegateEvents) \<Rightarrow>
                                 CommandQueue this' = CommandQueue Returned
                                 \<and> UpdateStatesCalls Events
                                     = CommandAddress Cmd # UpdateStatesCalls DelegateEvents
                                 \<and> DelegateCalls Events
                                     = (CommandAddress Cmd, bCommandSuccessful Cmd)
                                       # DelegateCalls DelegateEvents)
                       else CommandQueue this' = Before @ After
                            \<and> UpdateStatesCalls Events = [CommandAddress Cmd]
                            \<and> DelegateCalls Events = [])))"
proof (cases "\<exists>c\<in>set (CommandQueue this). bExecuteProcessed c")
  case False
  then have "Tick_loop Delegate this [] (CommandQueue this) = (this, False, [])"
    by (intro Tick_loop_none) simp
  with False show ?thesis by (simp add: Tick_def)
next
  case True
  from Tick_loop_first [OF True, of Delegate this "[]"]
  obtain Before Cmd After where
    q: "CommandQueue this = Before @ Cmd # After" and
    b: "\<forall>c\<in>set Before. \<not> bExecuteProcessed c" and
    p: "bExecuteProcessed Cmd" and
    t: "Tick_loop Delegate this [] (CommandQueue this)
          = Tick_process Delegate this Before Cmd After"
    by auto
  obtain this1 upd Events1 where
    r: "Tick_process Delegate this Before Cmd After = (this1, upd, Events1)"
    by (cases "Tick_process Delegate this Before Cmd After")
  note e = Tick_process_effect [OF r]
  have tick: "Tick Delegate this
      = (if upd \<or> bForceBroadcastUpdateNextTick this1
         then (this1\<lparr>bForceBroadcastUpdateNextTick := False\<rparr>, Events1 @ [StateChangedBroadcast])
         else (this1, Events1))"
    using t r by (simp add: Tick_def)
  obtain this' Events where te: "Tick Delegate this = (this', Events)"
    by (cases "Tick Delegate this")
  have same: "CommandQueue this' = CommandQueue this1"
    "UpdateStatesCalls Events = UpdateStatesCalls Events1"
    "DelegateCalls Events = DelegateCalls Events1"
    using te tick by (auto simp: UpdateStatesCalls_append DelegateCalls_append split: if_splits)
  have w: "CommandQueue this = Before @ Cmd # After
      \<and> (\<forall>c\<in>set Before. \<not> bExecuteProcessed c) \<and> bExecuteProcessed Cmd
      \<and> (if DelegateIsBound Cmd
          then (case Delegate (CommandAddress Cmd) (bCommandSuccessful Cmd)
                       (if WorkerIsConnected Cmd
                        then this\<lparr>CommandQueue := Before @ After, bConnected := True\<rparr>
                        else this\<lparr>CommandQueue := Before @ After\<rparr>) of
                  (Returned, DelegateEvents) \<Rightarrow>
                    CommandQueue this' = CommandQueue Returned
                    \<and> UpdateStatesCalls Events
                        = CommandAddress Cmd # UpdateStatesCalls DelegateEvents
                    \<and> DelegateCalls Events
                        = (CommandAddress Cmd, bCommandSuccessful Cmd)
                          # DelegateCalls DelegateEvents)
          else CommandQueue this' = Before @ After
               \<and> UpdateStatesCalls Events = [CommandAddress Cmd]
               \<and> DelegateCalls Events = [])"
    using q b p e unfolding same by simp
  from True have nn: "(\<forall>c\<in>set (CommandQueue this). \<not> bExecuteProcessed c) = False"
    by blast
  from w have "\<exists>Before Cmd After. CommandQueue this = Before @ Cmd # After
      \<and> (\<forall>c\<in>set Before. \<not> bExecuteProcessed c) \<and> bExecuteProcessed Cmd
      \<and> (if DelegateIsBound Cmd
          then (case Delegate (CommandAddress Cmd) (bCommandSuccessful Cmd)
                       (if WorkerIsConnected Cmd
                        then this\<lparr>CommandQueue := Before @ After, bConnected := True\<rparr>
                        else this\<lparr>CommandQueue := Before @ After\<rparr>) of
                  (Returned, DelegateEvents) \<Rightarrow>
                    CommandQueue this' = CommandQueue Returned
                    \<and> UpdateStatesCalls Events
                        = CommandAddress Cmd # UpdateStatesCalls DelegateEvents
                    \<and> DelegateCalls Events
                        = (CommandAddress Cmd, bCommandSuccessful Cmd)
                          # DelegateCalls DelegateEvents)
          else CommandQueue this' = Before @ After
               \<and> UpdateStatesCalls Events = [CommandAddress Cmd]
               \<and> DelegateCalls Events = [])"
    by blast
  then show ?thesis
    unfolding te prod.case nn by simp
qed

text \<open>
  At a queue of three commands of which the second and the third have been
  processed, none with a delegate bound: the tick handles the command at address 2
  and leaves those at addresses 1 and 3 queued.
\<close>

theorem Tick_one_command_per_tick_witness:
  "UpdateStatesCalls (snd (Tick (\<lambda>a r p. (p, []))
      \<lparr>CommandQueue =
         [\<lparr>CommandAddress = 1, Files = [], PathToGitBinary = ''git'', PathToRepositoryRoot = ''/repo'',
           Branch = ''master'', Remote = ''origin'', bUseLocking = True, bExecuteProcessed = False,
           bCommandSuccessful = True, bAutoDelete = True, InfoMessages = [], ErrorMessages = [],
           WorkerUpdateStates = True, WorkerIsConnected = False, DelegateIsBound = True\<rparr>,
          \<lparr>CommandAddress = 2, Files = [], PathToGitBinary = ''git'', PathToRepositoryRoot = ''/repo'',
           Branch = ''master'', Remote = ''origin'', bUseLocking = True, bExecuteProcessed = True,
           bCommandSuccessful = True, bAutoDelete = True, InfoMessages = [], ErrorMessages = [],
           WorkerUpdateStates = True, WorkerIsConnected = False, DelegateIsBound = False\<rparr>,
          \<lparr>CommandAddress = 3, Files = [], PathToGitBinary = ''git'', PathToRepositoryRoot = ''/repo'',
           Branch = ''master'', Remote = ''origin'', bUseLocking = True, bExecuteProcessed = True,
           bCommandSuccessful = True, bAutoDelete = True, InfoMessages = [], ErrorMessages = [],
           WorkerUpdateStates = True, WorkerIsConnected = False, DelegateIsBound = False\<rparr>],
        bConnected = True, bForceBroadcastUpdateNextTick = False\<rparr>)) = [2]
   \<and> map CommandAddress (CommandQueue (fst (Tick (\<lambda>a r p. (p, []))
      \<lparr>CommandQueue =
         [\<lparr>CommandAddress = 1, Files = [], PathToGitBinary = ''git'', PathToRepositoryRoot = ''/repo'',
           Branch = ''master'', Remote = ''origin'', bUseLocking = True, bExecuteProcessed = False,
           bCommandSuccessful = True, bAutoDelete = True, InfoMessages = [], ErrorMessages = [],
           WorkerUpdateStates = True, WorkerIsConnected = False, DelegateIsBound = True\<rparr>,
          \<lparr>CommandAddress = 2, Files = [], PathToGitBinary = ''git'', PathToRepositoryRoot = ''/repo'',
           Branch = ''master'', Remote = ''origin'', bUseLocking = True, bExecuteProcessed = True,
           bCommandSuccessful = True, bAutoDelete = True, InfoMessages = [], ErrorMessages = [],
           WorkerUpdateStates = True, WorkerIsConnected = False, DelegateIsBound = False\<rparr>,
          \<lparr>CommandAddress = 3, Files = [], PathToGitBinary = ''git'', PathToRepositoryRoot = ''/repo'',
           Branch = ''master'', Remote = ''origin'', bUseLocking = True, bExecuteProcessed = True,
           bCommandSuccessful = True, bAutoDelete = True, InfoMessages = [], ErrorMessages = [],
           WorkerUpdateStates = True, WorkerIsConnected = False, DelegateIsBound = False\<rparr>],
        bConnected = True, bForceBroadcastUpdateNextTick = False\<rparr>))) = [1, 3]"
  using Tick_one_command_per_tick [where Delegate = "\<lambda>a r p. (p, [])" and this =
      "\<lparr>CommandQueue =
         [\<lparr>CommandAddress = 1, Files = [], PathToGitBinary = ''git'', PathToRepositoryRoot = ''/repo'',
           Branch = ''master'', Remote = ''origin'', bUseLocking = True, bExecuteProcessed = False,
           bCommandSuccessful = True, bAutoDelete = True, InfoMessages = [], ErrorMessages = [],
           WorkerUpdateStates = True, WorkerIsConnected = False, DelegateIsBound = True\<rparr>,
          \<lparr>CommandAddress = 2, Files = [], PathToGitBinary = ''git'', PathToRepositoryRoot = ''/repo'',
           Branch = ''master'', Remote = ''origin'', bUseLocking = True, bExecuteProcessed = True,
           bCommandSuccessful = True, bAutoDelete = True, InfoMessages = [], ErrorMessages = [],
           WorkerUpdateStates = True, WorkerIsConnected = False, DelegateIsBound = False\<rparr>,
          \<lparr>CommandAddress = 3, Files = [], PathToGitBinary = ''git'', PathToRepositoryRoot = ''/repo'',
           Branch = ''master'', Remote = ''origin'', bUseLocking = True, bExecuteProcessed = True,
           bCommandSuccessful = True, bAutoDelete = True, InfoMessages = [], ErrorMessages = [],
           WorkerUpdateStates = True, WorkerIsConnected = False, DelegateIsBound = False\<rparr>],
        bConnected = True, bForceBroadcastUpdateNextTick = False\<rparr>"]
  by (simp add: Tick_def Tick_process_def)

text \<open>
  The claim as first stated has one call of \<open>Tick\<close> handle at most one completed
  command and leave every other one queued. A completion delegate that runs an
  operation synchronously calls \<open>Tick\<close> again before the outer call returns. With
  two processed commands queued and such a delegate bound to the first, calling
  \<open>Tick\<close> once, \<open>UpdateStates\<close> has been called for both commands and the queue is
  empty when the outer call returns.
\<close>

theorem Tick_reentered_by_delegate_counterexample:
  "UpdateStatesCalls (snd (Tick (\<lambda>a r p. Tick (\<lambda>a r p. (p, [])) p)
      \<lparr>CommandQueue =
         [\<lparr>CommandAddress = 2, Files = [], PathToGitBinary = ''git'', PathToRepositoryRoot = ''/repo'',
           Branch = ''master'', Remote = ''origin'', bUseLocking = True, bExecuteProcessed = True,
           bCommandSuccessful = True, bAutoDelete = True, InfoMessages = [], ErrorMessages = [],
           WorkerUpdateStates = True, WorkerIsConnected = False, DelegateIsBound = True\<rparr>,
          \<lparr>CommandAddress = 3, Files = [], PathToGitBinary = ''git'', PathToRepositoryRoot = ''/repo'',
           Branch = ''master'', Remote = ''origin'', bUseLocking = True, bExecuteProcessed = True,
           bCommandSuccessful = True, bAutoDelete = True, InfoMessages = [], ErrorMessages = [],
           WorkerUpdateStates = True, WorkerIsConnected = False, DelegateIsBound = False\<rparr>],
        bConnected = True, bForceBroadcastUpdateNextTick = False\<rparr>)) = [2, 3]
   \<and> CommandQueue (fst (Tick (\<lambda>a r p. Tick (\<lambda>a r p. (p, [])) p)
      \<lparr>CommandQueue =
         [\<lparr>CommandAddress = 2, Files = [], PathToGitBinary = ''git'', PathToRepositoryRoot = ''/repo'',
           Branch = ''master'', Remote = ''origin'', bUseLocking = True, bExecuteProcessed = True,
           bCommandSuccessful = True, bAutoDelete = True, InfoMessages = [], ErrorMessages = [],
           WorkerUpdateStates = True, WorkerIsConnected = False, DelegateIsBound = True\<rparr>,
          \<lparr>CommandAddress = 3, Files = [], PathToGitBinary = ''git'', PathToRepositoryRoot = ''/repo'',
           Branch = ''master'', Remote = ''origin'', bUseLocking = True, bExecuteProcessed = True,
           bCommandSuccessful = True, bAutoDelete = True, InfoMessages = [], ErrorMessages = [],
           WorkerUpdateStates = True, WorkerIsConnected = False, DelegateIsBound = False\<rparr>],
        bConnected = True, bForceBroadcastUpdateNextTick = False\<rparr>)) = []"
  by (simp add: Tick_def Tick_process_def)

section \<open>Get-latest when there is nothing to sync (C4)\<close>

text \<open>
  The start of \<open>GetLatest\<close> when the merge base the repository answers equals the
  remote head it answers, for a state \<open>t\<close> whose command names the same remote and
  branch: the index check decides, then the emptiness of the remote head.
\<close>

lemma GetLatest_up_to_date:
  assumes rb: "RemoteBranch = GetRemoteBranch env (Remote (Command s)) (Branch (Command s))"
      and mb: "fst (GetMergeBase env (Branch (Command s)) RemoteBranch s)
                 = fst (GetCommitShaForBranch env RemoteBranch s)"
      and t: "Remote (Command t) = Remote (Command s)" "Branch (Command t) = Branch (Command s)"
  shows "GetLatest env t =
     (let t1 = snd (RunCheckIndexValid env t);
          t2 = t1\<lparr>Issued := Issued t1 @ [(''rev-parse --verify'', [RemoteBranch])]\<rparr>;
          t3 = t2\<lparr>Issued := Issued t2 @ [(''merge-base'', [Branch (Command s), RemoteBranch])]\<rparr>
      in if fst (RunCheckIndexValid env s) \<noteq> Valid
         then (False, t1\<lparr>Command := (Command t1)\<lparr>bCommandSuccessful := False\<rparr>\<rparr>)
         else if fst (GetCommitShaForBranch env RemoteBranch s) = []
         then (False, t2\<lparr>Command := (Command t2)\<lparr>bCommandSuccessful := False\<rparr>\<rparr>)
         else (True, t3))"
proof -
  obtain a1 o1 e1 where q1: "GitQuery env ''status --porcelain'' [] = (a1, o1, e1)"
    by (cases "GitQuery env ''status --porcelain'' []")
  obtain a2 o2 e2 where q2: "GitQuery env ''rev-parse --verify'' [RemoteBranch] = (a2, o2, e2)"
    by (cases "GitQuery env ''rev-parse --verify'' [RemoteBranch]")
  obtain a3 o3 e3 where
    q3: "GitQuery env ''merge-base'' [Branch (Command s), RemoteBranch] = (a3, o3, e3)"
    by (cases "GitQuery env ''merge-base'' [Branch (Command s), RemoteBranch]")
  have r1: "\<And>u. RunCheckIndexValid env u
      = (if a1 then CheckIndexStates (ParseStatusResults env o1) else Invalid,
         u\<lparr>Command := (Command u)\<lparr>ErrorMessages := ErrorMessages (Command u) @ e1\<rparr>,
           Issued := Issued u @ [(''status --porcelain'', [])]\<rparr>)"
    by (simp add: RunCheckIndexValid_def q1 Let_def)
  define sha where "sha = (if a2 \<and> length o2 = 1 then o2 ! 0 else [])"
  define mbv where "mbv = (if \<not> a3 \<or> length o3 = 0 then [] else o3 ! 0)"
  have r2: "\<And>u. GetCommitShaForBranch env RemoteBranch u
      = (sha, u\<lparr>Issued := Issued u @ [(''rev-parse --verify'', [RemoteBranch])]\<rparr>)"
    by (simp add: GetCommitShaForBranch_def q2 sha_def)
  have r3: "\<And>u. GetMergeBase env (Branch (Command s)) RemoteBranch u
      = (mbv, u\<lparr>Issued := Issued u @ [(''merge-base'', [Branch (Command s), RemoteBranch])]\<rparr>)"
    by (simp add: GetMergeBase_def q3 mbv_def)
  have eq: "mbv = sha"
    using mb by (simp add: r2 r3)
  show ?thesis
    by (simp add: GetLatest_def r1 rb [symmetric] t r2 r3 eq Let_def)
qed

lemma RunCheckIndexValid_frame:
  "StatusFile (snd (RunCheckIndexValid env t)) = StatusFile t
   \<and> Issued (snd (RunCheckIndexValid env t)) = Issued t @ [(''status --porcelain'', [])]
   \<and> Remote (Command (snd (RunCheckIndexValid env t))) = Remote (Command t)
   \<and> Branch (Command (snd (RunCheckIndexValid env t))) = Branch (Command t)
   \<and> bCommandSuccessful (Command (snd (RunCheckIndexValid env t))) = bCommandSuccessful (Command t)"
  by (simp add: RunCheckIndexValid_def Let_def split: prod.splits)

text \<open>
  Claim C4, as amended. When the merge base of the local and the remote branch
  equals the remote head, \<open>GetLatest\<close> leaves the ledger as it is and issues no git
  command but the three queries \<open>status --porcelain\<close>, \<open>rev-parse --verify\<close> and
  \<open>merge-base\<close>, whatever it returns. When moreover the index is valid and the
  remote head was found, it returns success, having issued exactly these three
  queries and left the command's success flag alone; and a second run from the
  state the first one left, against the same repository answers, returns success
  again, with the ledger still as it was before the first run.
\<close>

theorem GetLatest_up_to_date_is_noop:
  assumes rb: "RemoteBranch = GetRemoteBranch env (Remote (Command s)) (Branch (Command s))"
      and mb: "fst (GetMergeBase env (Branch (Command s)) RemoteBranch s)
                 = fst (GetCommitShaForBranch env RemoteBranch s)"
  shows "StatusFile (snd (GetLatest env s)) = StatusFile s
    \<and> set (map fst (Issued (snd (GetLatest env s))))
         \<subseteq> set (map fst (Issued s)) \<union> {''status --porcelain'', ''rev-parse --verify'', ''merge-base''}
    \<and> (fst (RunCheckIndexValid env s) = Valid \<and> fst (GetCommitShaForBranch env RemoteBranch s) \<noteq> []
        \<longrightarrow> (\<exists>s'. GetLatest env s = (True, s')
               \<and> Issued s' = Issued s @ [(''status --porcelain'', []),
                     (''rev-parse --verify'', [RemoteBranch]),
                     (''merge-base'', [Branch (Command s), RemoteBranch])]
               \<and> bCommandSuccessful (Command s') = bCommandSuccessful (Command s)
               \<and> (\<exists>s''. GetLatest env s' = (True, s'') \<and> StatusFile s'' = StatusFile s
                      \<and> Issued s'' = Issued s' @ [(''status --porcelain'', []),
                            (''rev-parse --verify'', [RemoteBranch]),
                            (''merge-base'', [Branch (Command s), RemoteBranch])])))"
proof -
  note first = GetLatest_up_to_date [OF rb mb, of s, simplified]
  have frame: "StatusFile (snd (GetLatest env s)) = StatusFile s
    \<and> set (map fst (Issued (snd (GetLatest env s))))
         \<subseteq> set (map fst (Issued s)) \<union> {''status --porcelain'', ''rev-parse --verify'', ''merge-base''}"
    using RunCheckIndexValid_frame [of env s] by (auto simp: first Let_def)
  have noop: "\<exists>s'. GetLatest env s = (True, s')
               \<and> Issued s' = Issued s @ [(''status --porcelain'', []),
                     (''rev-parse --verify'', [RemoteBranch]),
                     (''merge-base'', [Branch (Command s), RemoteBranch])]
               \<and> bCommandSuccessful (Command s') = bCommandSuccessful (Command s)
               \<and> (\<exists>s''. GetLatest env s' = (True, s'') \<and> StatusFile s'' = StatusFile s
                      \<and> Issued s'' = Issued s' @ [(''status --porcelain'', []),
                            (''rev-parse --verify'', [RemoteBranch]),
                            (''merge-base'', [Branch (Command s), RemoteBranch])])"
    if v: "fst (RunCheckIndexValid env s) = Valid"
      and n: "fst (GetCommitShaForBranch env RemoteBranch s) \<noteq> []"
  proof -
    obtain s' where s': "GetLatest env s = (True, s')"
      using v n by (simp add: first Let_def)
    have f1: "StatusFile s' = StatusFile s"
      "Issued s' = Issued s @ [(''status --porcelain'', []),
                     (''rev-parse --verify'', [RemoteBranch]),
                     (''merge-base'', [Branch (Command s), RemoteBranch])]"
      "bCommandSuccessful (Command s') = bCommandSuccessful (Command s)"
      "Remote (Command s') = Remote (Command s)" "Branch (Command s') = Branch (Command s)"
      using s' v n RunCheckIndexValid_frame [of env s] by (auto simp: first Let_def)
    note second = GetLatest_up_to_date [OF rb mb f1(4) f1(5), simplified]
    obtain s'' where s'': "GetLatest env s' = (True, s'')"
      using v n by (simp add: second Let_def)
    have f2: "StatusFile s'' = StatusFile s'"
      "Issued s'' = Issued s' @ [(''status --porcelain'', []),
                     (''rev-parse --verify'', [RemoteBranch]),
                     (''merge-base'', [Branch (Command s), RemoteBranch])]"
      using s'' v n RunCheckIndexValid_frame [of env s'] by (auto simp: second Let_def)
    from s' s'' f1 f2 show ?thesis by simp
  qed
  from frame noop show ?thesis by blast
qed

text \<open>
  At a repository with a clean status whose remote head and merge base are both
  \<open>9b2c\<close>: both runs succeed and the ledger is untouched; the steps after the
  comparison, which here would fail and empty the ledger, are not reached.
\<close>

theorem GetLatest_up_to_date_is_noop_witness:
  "fst (GetLatest
          \<lparr>GitQuery = (\<lambda>c ps. if c = ''status --porcelain'' then (True, [], []) else (True, [''9b2c''], [])),
           ParseStatusResults = map (\<lambda>l. (NewState (''/repo/'' @ drop 3 l))\<lparr>bStaged := True\<rparr>),
           GetRemoteBranch = (\<lambda>r b. r @ ''/'' @ b),
           SyncAndRebase = (\<lambda>m r b s. (False, s\<lparr>StatusFile := (StatusFile s)\<lparr>SavedStates := []\<rparr>\<rparr>))\<rparr>
          \<lparr>Command = \<lparr>CommandAddress = 1, Files = [''/repo''], PathToGitBinary = ''git'',
             PathToRepositoryRoot = ''/repo'', Branch = ''master'', Remote = ''origin'',
             bUseLocking = True, bExecuteProcessed = False, bCommandSuccessful = True,
             bAutoDelete = True, InfoMessages = [], ErrorMessages = [],
             WorkerUpdateStates = False, WorkerIsConnected = False, DelegateIsBound = False\<rparr>,
           StatusFile = \<lparr>bDirty = False, SavedStates = [], CachedStates = [], LoadedData = None\<rparr>,
           Issued = []\<rparr>)
   \<and> StatusFile (snd (GetLatest
          \<lparr>GitQuery = (\<lambda>c ps. if c = ''status --porcelain'' then (True, [], []) else (True, [''9b2c''], [])),
           ParseStatusResults = map (\<lambda>l. (NewState (''/repo/'' @ drop 3 l))\<lparr>bStaged := True\<rparr>),
           GetRemoteBranch = (\<lambda>r b. r @ ''/'' @ b),
           SyncAndRebase = (\<lambda>m r b s. (False, s\<lparr>StatusFile := (StatusFile s)\<lparr>SavedStates := []\<rparr>\<rparr>))\<rparr>
          \<lparr>Command = \<lparr>CommandAddress = 1, Files = [''/repo''], PathToGitBinary = ''git'',
             PathToRepositoryRoot = ''/repo'', Branch = ''master'', Remote = ''origin'',
             bUseLocking = True, bExecuteProcessed = False, bCommandSuccessful = True,
             bAutoDelete = True, InfoMessages = [], ErrorMessages = [],
             WorkerUpdateStates = False, WorkerIsConnected = False, DelegateIsBound = False\<rparr>,
           StatusFile = \<lparr>bDirty = False, SavedStates = [], CachedStates = [], LoadedData = None\<rparr>,
           Issued = []\<rparr>))
       = \<lparr>bDirty = False, SavedStates = [], CachedStates = [], LoadedData = None\<rparr>
   \<and> fst (GetLatest
          \<lparr>GitQuery = (\<lambda>c ps. if c = ''status --porcelain'' then (True, [], []) else (True, [''9b2c''], [])),
           ParseStatusResults = map (\<lambda>l. (NewState (''/repo/'' @ drop 3 l))\<lparr>bStaged := True\<rparr>),
           GetRemoteBranch = (\<lambda>r b. r @ ''/'' @ b),
           SyncAndRebase = (\<lambda>m r b s. (False, s\<lparr>StatusFile := (StatusFile s)\<lparr>SavedStates := []\<rparr>\<rparr>))\<rparr>
          (snd (GetLatest
          \<lparr>GitQuery = (\<lambda>c ps. if c = ''status --porcelain'' then (True, [], []) else (True, [''9b2c''], [])),
           ParseStatusResults = map (\<lambda>l. (NewState (''/repo/'' @ drop 3 l))\<lparr>bStaged := True\<rparr>),
           GetRemoteBranch = (\<lambda>r b. r @ ''/'' @ b),
           SyncAndRebase = (\<lambda>m r b s. (False, s\<lparr>StatusFile := (StatusFile s)\<lparr>SavedStates := []\<rparr>\<rparr>))\<rparr>
          \<lparr>Command = \<lparr>CommandAddress = 1, Files = [''/repo''], PathToGitBinary = ''git'',
             PathToRepositoryRoot = ''/repo'', Branch = ''master'', Remote = ''origin'',
             bUseLocking = True, bExecuteProcessed = False, bCommandSuccessful = True,
             bAutoDelete = True, InfoMessages = [], ErrorMessages = [],
             WorkerUpdateStates = False, WorkerIsConnected = False, DelegateIsBound = False\<rparr>,
           StatusFile = \<lparr>bDirty = False, SavedStates = [], CachedStates = [], LoadedData = None\<rparr>,
           Issued = []\<rparr>)))"
  using GetLatest_up_to_date_is_noop [where RemoteBranch = "''origin/master''" and env =
          "\<lparr>GitQuery = (\<lambda>c ps. if c = ''status --porcelain'' then (True, [], []) else (True, [''9b2c''], [])),
           ParseStatusResults = map (\<lambda>l. (NewState (''/repo/'' @ drop 3 l))\<lparr>bStaged := True\<rparr>),
           GetRemoteBranch = (\<lambda>r b. r @ ''/'' @ b),
           SyncAndRebase = (\<lambda>m r b s. (False, s\<lparr>StatusFile := (StatusFile s)\<lparr>SavedStates := []\<rparr>\<rparr>))\<rparr>"
          and s =
          "\<lparr>Command = \<lparr>CommandAddress = 1, Files = [''/repo''], PathToGitBinary = ''git'',
             PathToRepositoryRoot = ''/repo'', Branch = ''master'', Remote = ''origin'',
             bUseLocking = True, bExecuteProcessed = False, bCommandSuccessful = True,
             bAutoDelete = True, InfoMessages = [], ErrorMessages = [],
             WorkerUpdateStates = False, WorkerIsConnected = False, DelegateIsBound = False\<rparr>,
           StatusFile = \<lparr>bDirty = False, SavedStates = [], CachedStates = [], LoadedData = None\<rparr>,
           Issued = []\<rparr>"]
  by (auto simp: RunCheckIndexValid_def GetCommitShaForBranch_def GetMergeBase_def)

text \<open>
  The claim as first stated promises success whenever the merge base equals the
  remote head. With a staged file in the status the index is not valid, and
  \<open>GetLatest\<close> returns false although both are \<open>9b2c\<close>.
\<close>

theorem GetLatest_invalid_index_counterexample:
  "fst (GetMergeBase
          \<lparr>GitQuery = (\<lambda>c ps. if c = ''status --porcelain'' then (True, [''M  a.uasset''], []) else (True, [''9b2c''], [])),
           ParseStatusResults = map (\<lambda>l. (NewState (''/repo/'' @ drop 3 l))\<lparr>bStaged := True\<rparr>),
           GetRemoteBranch = (\<lambda>r b. r @ ''/'' @ b),
           SyncAndRebase = (\<lambda>m r b s. (False, s\<lparr>StatusFile := (StatusFile s)\<lparr>SavedStates := []\<rparr>\<rparr>))\<rparr>
          ''master'' ''origin/master''
          \<lparr>Command = \<lparr>CommandAddress = 1, Files = [''/repo''], PathToGitBinary = ''git'',
             PathToRepositoryRoot = ''/repo'', Branch = ''master'', Remote = ''origin'',
             bUseLocking = True, bExecuteProcessed = False, bCommandSuccessful = True,
             bAutoDelete = True, InfoMessages = [], ErrorMessages = [],
             WorkerUpdateStates = False, WorkerIsConnected = False, DelegateIsBound = False\<rparr>,
           StatusFile = \<lparr>bDirty = False, SavedStates = [], CachedStates = [], LoadedData = None\<rparr>,
           Issued = []\<rparr>)
     = fst (GetCommitShaForBranch
          \<lparr>GitQuery = (\<lambda>c ps. if c = ''status --porcelain'' then (True, [''M  a.uasset''], []) else (True, [''9b2c''], [])),
           ParseStatusResults = map (\<lambda>l. (NewState (''/repo/'' @ drop 3 l))\<lparr>bStaged := True\<rparr>),
           GetRemoteBranch = (\<lambda>r b. r @ ''/'' @ b),
           SyncAndRebase = (\<lambda>m r b s. (False, s\<lparr>StatusFile := (StatusFile s)\<lparr>SavedStates := []\<rparr>\<rparr>))\<rparr>
          ''origin/master''
          \<lparr>Command = \<lparr>CommandAddress = 1, Files = [''/repo''], PathToGitBinary = ''git'',
             PathToRepositoryRoot = ''/repo'', Branch = ''master'', Remote = ''origin'',
             bUseLocking = True, bExecuteProcessed = False, bCommandSuccessful = True,
             bAutoDelete = True, InfoMessages = [], ErrorMessages = [],
             WorkerUpdateStates = False, WorkerIsConnected = False, DelegateIsBound = False\<rparr>,
           StatusFile = \<lparr>bDirty = False, SavedStates = [], CachedStates = [], LoadedData = None\<rparr>,
           Issued = []\<rparr>)
   \<and> \<not> fst (GetLatest
          \<lparr>GitQuery = (\<lambda>c ps. if c = ''status --porcelain'' then (True, [''M  a.uasset''], []) else (True, [''9b2c''], [])),
           ParseStatusResults = map (\<lambda>l. (NewState (''/repo/'' @ drop 3 l))\<lparr>bStaged := True\<rparr>),
           GetRemoteBranch = (\<lambda>r b. r @ ''/'' @ b),
           SyncAndRebase = (\<lambda>m r b s. (False, s\<lparr>StatusFile := (StatusFile s)\<lparr>SavedStates := []\<rparr>\<rparr>))\<rparr>
          \<lparr>Command = \<lparr>CommandAddress = 1, Files = [''/repo''], PathToGitBinary = ''git'',
             PathToRepositoryRoot = ''/repo'', Branch = ''master'', Remote = ''origin'',
             bUseLocking = True, bExecuteProcessed = False, bCommandSuccessful = True,
             bAutoDelete = True, InfoMessages = [], ErrorMessages = [],
             WorkerUpdateStates = False, WorkerIsConnected = False, DelegateIsBound = False\<rparr>,
           StatusFile = \<lparr>bDirty = False, SavedStates = [], CachedStates = [], LoadedData = None\<rparr>,
           Issued = []\<rparr>)"
  by (simp add: GetLatest_def RunCheckIndexValid_def GetCommitShaForBranch_def GetMergeBase_def
        IsConflicted_def NewState_def)

end
